theory Spec2Isabelle
  imports Complex_Main
begin

section \<open>Python values and the errors the solver can raise\<close>

text \<open>
  \<^verbatim>\<open>solver.py\<close> has no \<^verbatim>\<open>raise\<close> of its own; every failure is an exception of the
  interpreter or of the tensor library that propagates out of the method.  Each one the
  methods below can reach is a constructor here, and a method that can fail returns
  \<open>py_error + 'a\<close> with \<open>Inl\<close> for the exception.  \<open>TorchError\<close> stands for an
  exception raised inside a tensor operation (a shape that does not broadcast, \<open>k\<close> out
  of range, an index out of bounds).
\<close>

datatype py_error =
  ZeroDivisionError | AttributeError | UnboundLocalError | ValueError | IndexError
  | FileNotFoundError | TorchError

text \<open>
  Modelled from the spec: \<^verbatim>\<open>utils.to_var\<close> is imported by \<^verbatim>\<open>solver.py\<close> but its file is
  not among the sources.  The spec speaks of it as converting a batch; the conversion wraps
  the tensor for the framework and, with \<^verbatim>\<open>use_gpu\<close>, moves it to the device, and the
  values of the tensor stay as they are.
\<close>

definition to_var :: "'a \<Rightarrow> bool \<Rightarrow> 'a" where
  "to_var x gpu = x"

section \<open>Tensors as the evaluator reads them\<close>

text \<open>
  The network's output is a two-dimensional tensor of scores, one row per example and one
  column per class.  It is kept as its shape and its indexing function, so that a tensor
  with no rows still has a class dimension (\<^verbatim>\<open>torch.topk\<close> checks \<open>k\<close> against it).
  Scores are taken from a linear order; floating point NaN is outside this model.
\<close>

datatype 's tensor2 = Tensor2 (nrows: nat) (ncols: nat) (entry: "nat \<Rightarrow> nat \<Rightarrow> 's")

definition row :: "'s tensor2 \<Rightarrow> nat \<Rightarrow> 's list" where
  "row t i = map (entry t i) [0..<ncols t]"

definition rows :: "'s tensor2 \<Rightarrow> 's list list" where
  "rows t = map (row t) [0..<nrows t]"

text \<open>
  \<^verbatim>\<open>torch.max(output, dim=1)\<close> gives, for each row, the index of its largest score; among
  equal largest scores the first index is returned.  A class dimension of size zero is an
  error.
\<close>

fun argmax_from :: "nat \<Rightarrow> nat \<Rightarrow> 's::linorder \<Rightarrow> 's list \<Rightarrow> nat" where
  "argmax_from j b v [] = b"
| "argmax_from j b v (x # xs) =
     (if v < x then argmax_from (Suc j) j x xs else argmax_from (Suc j) b v xs)"

fun argmax :: "'s::linorder list \<Rightarrow> nat" where
  "argmax [] = 0"
| "argmax (x # xs) = argmax_from 1 0 x xs"

definition torch_max_dim1 :: "'s::linorder tensor2 \<Rightarrow> py_error + nat list" where
  "torch_max_dim1 t = (if ncols t = 0 then Inl TorchError else Inr (map argmax (rows t)))"

text \<open>
  \<^verbatim>\<open>torch.topk(output, k, dim=1)\<close> fails when the class dimension is smaller than \<open>k\<close>
  and otherwise gives, for each row, the indices of \<open>k\<close> largest scores.  Which indices it
  returns among equal scores is the library's choice and differs between its
  implementations, so the selection on one row is a parameter \<open>select\<close> here (the field
  \<open>topk\<close> of the framework below); what the library promises of it is \<open>topk_selects\<close>.
\<close>

definition torch_topk_dim1 ::
  "(nat \<Rightarrow> 's list \<Rightarrow> nat list) \<Rightarrow> nat \<Rightarrow> 's tensor2 \<Rightarrow> py_error + nat list list" where
  "torch_topk_dim1 select k t =
     (if ncols t < k then Inl TorchError else Inr (map (select k) (rows t)))"


text \<open>
  A label batch is a one-dimensional integer tensor, one class index per example (a batch
  of shape \<open>[N, 1]\<close> goes through the same steps with the same results).
  \<^verbatim>\<open>labels.squeeze()\<close> turns a batch of exactly one label into a zero-dimensional tensor
  and leaves every other batch as it is.  \<^verbatim>\<open>torch.eq\<close> broadcasts: a zero-dimensional
  or one-element operand is compared with every element of the other, two operands of the
  same length are compared elementwise, and any other pair of lengths is an error.
\<close>

datatype squeezed = Scalar int | Vector "int list"

definition squeeze_labels :: "int list \<Rightarrow> squeezed" where
  "squeeze_labels ls = (case ls of [l] \<Rightarrow> Scalar l | _ \<Rightarrow> Vector ls)"

definition torch_eq :: "squeezed \<Rightarrow> nat list \<Rightarrow> py_error + bool list" where
  "torch_eq a ts =
     (case a of
        Scalar l \<Rightarrow> Inr (map (\<lambda>t. l = int t) ts)
      | Vector ls \<Rightarrow>
          (case ts of
             [t] \<Rightarrow> Inr (map (\<lambda>l. l = int t) ls)
           | _ \<Rightarrow>
               if length ls = length ts then Inr (map2 (\<lambda>l t. l = int t) ls ts)
               else Inl TorchError))"

definition torch_sum :: "bool list \<Rightarrow> nat" where
  "torch_sum bs = length (filter (\<lambda>b. b) bs)"

text \<open>
  \<^verbatim>\<open>label in top_5_output[i]\<close> is \<^verbatim>\<open>Tensor.__contains__\<close>: some element of the row
  equals the label.
\<close>

definition tensor_contains :: "nat list \<Rightarrow> int \<Rightarrow> bool" where
  "tensor_contains r label = list_ex (\<lambda>t. int t = label) r"

text \<open>
  \<^verbatim>\<open>top_1_correct\<close> starts as the Python integer \<open>0\<close> and becomes a tensor with the
  first \<^verbatim>\<open>+=\<close> of a \<^verbatim>\<open>torch.sum\<close>; only a tensor has \<^verbatim>\<open>.item()\<close>.
\<close>

datatype py_count = PyInt nat | Tensor0 nat

fun count_value :: "py_count \<Rightarrow> nat" where
  "count_value (PyInt n) = n"
| "count_value (Tensor0 n) = n"

definition add_tensor :: "py_count \<Rightarrow> nat \<Rightarrow> py_count" where
  "add_tensor c n = Tensor0 (count_value c + n)"

fun item :: "py_count \<Rightarrow> py_error + nat" where
  "item (PyInt n) = Inl AttributeError"
| "item (Tensor0 n) = Inr n"

section \<open>The solver, its configuration and the framework it drives\<close>

text \<open>
  The network together with its optimizer: the parameters and buffers that
  \<^verbatim>\<open>state_dict()\<close> returns, the training-mode flag, and everything else the framework
  keeps (gradients, momentum buffers), which the solver never reads.
\<close>

record ('p, 'o) net =
  state_dict :: 'p
  training :: bool
  aux :: 'o

text \<open>
  The attributes of \<^verbatim>\<open>Solver\<close> that its methods write, and the two pieces of the
  outside world they write to: the lines printed and the checkpoint files, a map from
  path to saved parameters.
\<close>

record ('p, 'o, 'l) solver =
  model :: "('p, 'o) net"
  losses :: "(int \<times> 'l) list"
  top_1_acc :: "(int \<times> real) list"
  top_5_acc :: "(int \<times> real) list"
  stdout :: "string list"
  files :: "string \<Rightarrow> 'p option"

text \<open>The configuration keys the methods read (\<^verbatim>\<open>self.__dict__.update(**config)\<close>).\<close>

record config =
  version :: string
  model_save_path :: string
  pretrained_model :: "string option"
  num_epochs :: int
  loss_log_step :: int
  model_save_step :: int
  train_eval_step :: int
  use_gpu :: bool

text \<open>
  What the solver calls and does not define: the network's forward pass (which may update
  buffers), the selection \<^verbatim>\<open>torch.topk\<close> makes on a row, the loss criterion, \<^verbatim>\<open>squeeze\<close> on the tensor handed over as target, the backward
  pass, the optimizer, the clock, and the formatting of a time span and of a number with
  four decimals.  They are parameters; an exception raised inside one of them is outside
  this model.  \<open>clock e\<close> is what \<^verbatim>\<open>time.time()\<close> returns inside the loss log of epoch
  \<open>e\<close>.
\<close>

record ('p, 'o, 'x, 's, 'l) torch =
  forward :: "('p, 'o) net \<Rightarrow> 'x \<Rightarrow> 's tensor2 \<times> ('p, 'o) net"
  topk :: "nat \<Rightarrow> 's list \<Rightarrow> nat list"
  criterion :: "'s tensor2 \<Rightarrow> 'x \<Rightarrow> 'l"
  squeeze :: "'x \<Rightarrow> 'x"
  backward :: "'l \<Rightarrow> ('p, 'o) net \<Rightarrow> ('p, 'o) net"
  zero_grad :: "('p, 'o) net \<Rightarrow> ('p, 'o) net"
  optimizer_step :: "('p, 'o) net \<Rightarrow> ('p, 'o) net"
  start_time :: real
  clock :: "int \<Rightarrow> real"
  timedelta_str :: "real \<Rightarrow> string"
  format_4f_loss :: "'l \<Rightarrow> string"
  format_4f :: "real \<Rightarrow> string"

section \<open>\<^verbatim>\<open>Solver.eval\<close>\<close>

text \<open>
  A data loader is the list of batches it yields, each a pair of an image batch and a label
  batch; every pass over it yields the same list, and its \<^verbatim>\<open>len\<close> is the number of
  batches.
\<close>

fun top_5_loop :: "nat list list \<Rightarrow> (nat \<times> int) list \<Rightarrow> nat \<Rightarrow> py_error + nat" where
  "top_5_loop top_5_output [] top_5_correct = Inr top_5_correct"
| "top_5_loop top_5_output ((i, label) # rest) top_5_correct =
     (if i < length top_5_output
      then top_5_loop top_5_output rest
             (if tensor_contains (top_5_output ! i) label then top_5_correct + 1
              else top_5_correct)
      else Inl TorchError)"

definition eval_batch ::
  "('p, 'o, 'x, 's::linorder, 'l) torch \<Rightarrow> config \<Rightarrow> 'x \<times> int list \<Rightarrow>
   py_count \<times> nat \<times> nat \<times> ('p, 'o, 'l) solver \<Rightarrow>
   py_error + (py_count \<times> nat \<times> nat \<times> ('p, 'o, 'l) solver)" where
  "eval_batch T cfg batch acc =
     (case (batch, acc) of ((images0, labels0), (top_1_correct, top_5_correct, total_seen, s)) \<Rightarrow>
        let images = to_var images0 (use_gpu cfg);
            labels = to_var labels0 (use_gpu cfg);
            (output, m) = forward T (model s) images;
            s' = s\<lparr>model := m\<rparr>;
            total' = total_seen + length labels
        in case torch_max_dim1 output of
             Inl e \<Rightarrow> Inl e
           | Inr top_1_output \<Rightarrow>
               (case torch_eq (squeeze_labels labels) top_1_output of
                  Inl e \<Rightarrow> Inl e
                | Inr eqs \<Rightarrow>
                    (case torch_topk_dim1 (topk T) 5 output of
                       Inl e \<Rightarrow> Inl e
                     | Inr top_5_output \<Rightarrow>
                         (case top_5_loop top_5_output (enumerate 0 labels) top_5_correct of
                            Inl e \<Rightarrow> Inl e
                          | Inr top_5_correct' \<Rightarrow>
                              Inr (add_tensor top_1_correct (torch_sum eqs),
                                   top_5_correct', total', s')))))"

fun eval_loop ::
  "('p, 'o, 'x, 's::linorder, 'l) torch \<Rightarrow> config \<Rightarrow> ('x \<times> int list) list \<Rightarrow>
   py_count \<times> nat \<times> nat \<times> ('p, 'o, 'l) solver \<Rightarrow>
   py_error + (py_count \<times> nat \<times> nat \<times> ('p, 'o, 'l) solver)" where
  "eval_loop T cfg [] acc = Inr acc"
| "eval_loop T cfg (batch # rest) acc =
     (case eval_batch T cfg batch acc of
        Inl e \<Rightarrow> Inl e
      | Inr acc' \<Rightarrow> eval_loop T cfg rest acc')"

definition eval ::
  "('p, 'o, 'x, 's::linorder, 'l) torch \<Rightarrow> config \<Rightarrow> ('p, 'o, 'l) solver \<Rightarrow>
   ('x \<times> int list) list \<Rightarrow> py_error + ((nat \<times> nat \<times> nat) \<times> ('p, 'o, 'l) solver)" where
  "eval T cfg s data_loader =
     (case eval_loop T cfg data_loader
             (PyInt 0, 0, 0, s\<lparr>model := (model s)\<lparr>training := False\<rparr>\<rparr>) of
        Inl e \<Rightarrow> Inl e
      | Inr (top_1_correct, top_5_correct, total_seen, s') \<Rightarrow>
          (case item top_1_correct of
             Inl e \<Rightarrow> Inl e
           | Inr n \<Rightarrow> Inr ((n, top_5_correct, total_seen), s')))"


section \<open>Strings, integers and paths\<close>

text \<open>\<^verbatim>\<open>str(n)\<close> and \<^verbatim>\<open>'{}'.format(n)\<close> for an integer: its decimal digits, with a sign.\<close>

definition digit_char :: "nat \<Rightarrow> char" where
  "digit_char d = ''0123456789'' ! d"

function str_nat :: "nat \<Rightarrow> string" where
  "str_nat n = (if n < 10 then [digit_char n] else str_nat (n div 10) @ [digit_char (n mod 10)])"
  by pat_completeness auto
termination
  by (relation "measure (\<lambda>n. n)") auto

definition str_int :: "int \<Rightarrow> string" where
  "str_int k = (if k < 0 then CHR ''-'' # str_nat (nat (- k)) else str_nat (nat k))"

text \<open>\<^verbatim>\<open>s.split(c)\<close>: the fields between the occurrences of \<open>c\<close>; never an empty list.\<close>

fun py_split :: "char \<Rightarrow> string \<Rightarrow> string list" where
  "py_split c [] = [[]]"
| "py_split c (x # xs) =
     (if x = c then [] # py_split c xs
      else (case py_split c xs of [] \<Rightarrow> [[x]] | w # ws \<Rightarrow> (x # w) # ws))"

text \<open>
  \<^verbatim>\<open>int(s)\<close> on a string: surrounding whitespace is dropped, one sign is allowed, and what
  is left must be decimal digits, else \<^verbatim>\<open>ValueError\<close>.  A \<open>char\<close> is a code point below
  256; of these \<^verbatim>\<open>int\<close> skips space, tab, line feed, vertical tab, form feed, carriage
  return, U+0085 and U+00A0 (and not the separators U+001C to U+001F, which
  \<^verbatim>\<open>str.strip\<close> would drop).  Python also accepts an underscore between two digits;
  \<open>train\<close> calls it on a field of \<^verbatim>\<open>split('_')\<close>, which has none.
\<close>

definition py_isspace :: "char \<Rightarrow> bool" where
  "py_isspace c = (c \<in> set [CHR '' '', CHR 0x09, CHR 0x0A, CHR 0x0B, CHR 0x0C, CHR 0x0D,
                             CHR 0x85, CHR 0xA0])"

definition py_strip :: "string \<Rightarrow> string" where
  "py_strip s = rev (dropWhile py_isspace (rev (dropWhile py_isspace s)))"

definition is_digit :: "char \<Rightarrow> bool" where
  "is_digit c = (c \<in> set ''0123456789'')"

definition digit_value :: "char \<Rightarrow> nat" where
  "digit_value c = of_char c - 48"

definition digits_value :: "string \<Rightarrow> nat" where
  "digits_value ds = foldl (\<lambda>a c. 10 * a + digit_value c) 0 ds"

definition py_int :: "string \<Rightarrow> py_error + int" where
  "py_int s =
     (let t = py_strip s;
          (negative, ds) =
            (case t of
               [] \<Rightarrow> (False, [])
             | c # r \<Rightarrow>
                 if c = CHR ''-'' then (True, r)
                 else if c = CHR ''+'' then (False, r)
                 else (False, t))
      in if ds \<noteq> [] \<and> list_all is_digit ds
         then Inr (if negative then - int (digits_value ds) else int (digits_value ds))
         else Inl ValueError)"

text \<open>\<^verbatim>\<open>a % b\<close> on Python integers: the sign of the result follows the divisor, as HOL's \<open>mod\<close>.\<close>

definition py_mod :: "int \<Rightarrow> int \<Rightarrow> py_error + int" where
  "py_mod a b = (if b = 0 then Inl ZeroDivisionError else Inr (a mod b))"

text \<open>\<^verbatim>\<open>range(a, b)\<close>, as the list it runs through.\<close>

definition py_range :: "int \<Rightarrow> int \<Rightarrow> int list" where
  "py_range a b = map (\<lambda>k. a + int k) [0..<nat (b - a)]"

text \<open>
  \<^verbatim>\<open>os.path.join(a, b)\<close> on POSIX: an absolute \<open>b\<close> discards \<open>a\<close>; otherwise the two
  are joined by one separator unless \<open>a\<close> is empty or already ends in one.
\<close>

definition os_path_join :: "string \<Rightarrow> string \<Rightarrow> string" where
  "os_path_join a b =
     (if take 1 b = ''/'' then b
      else if a = [] then b
      else if last a = CHR ''/'' then a @ b
      else a @ ''/'' @ b)"

text \<open>\<^verbatim>\<open>'{}'.format(x)\<close> for a configuration value that is a string or \<^verbatim>\<open>None\<close>.\<close>

definition format_opt :: "string option \<Rightarrow> string" where
  "format_opt x = (case x of None \<Rightarrow> ''None'' | Some s \<Rightarrow> s)"

section \<open>Checkpoints: \<^verbatim>\<open>Solver.save_model\<close> and \<^verbatim>\<open>Solver.load_pretrained_model\<close>\<close>

text \<open>
  \<^verbatim>\<open>torch.save\<close> writes the parameters under the path and \<^verbatim>\<open>torch.load\<close> reads them
  back; a path nothing was saved under raises \<^verbatim>\<open>FileNotFoundError\<close>.  Paths are compared
  as strings.  \<^verbatim>\<open>load_state_dict\<close> replaces the parameters of the network.
\<close>

definition checkpoint_path :: "config \<Rightarrow> int \<Rightarrow> int \<Rightarrow> string" where
  "checkpoint_path cfg e i =
     os_path_join (model_save_path cfg)
       (version cfg @ ''_'' @ str_int (e + 1) @ ''_'' @ str_int (i + 1) @ ''.pth'')"

definition save_model ::
  "config \<Rightarrow> ('p, 'o, 'l) solver \<Rightarrow> int \<Rightarrow> int \<Rightarrow> ('p, 'o, 'l) solver" where
  "save_model cfg s e i =
     s\<lparr>files := (files s)(checkpoint_path cfg e i \<mapsto> state_dict (model s))\<rparr>"

definition load_pretrained_model ::
  "config \<Rightarrow> ('p, 'o, 'l) solver \<Rightarrow> py_error + ('p, 'o, 'l) solver" where
  "load_pretrained_model cfg s =
     (case files s (os_path_join (model_save_path cfg)
                      (format_opt (pretrained_model cfg) @ ''.pth'')) of
        None \<Rightarrow> Inl FileNotFoundError
      | Some sd \<Rightarrow>
          Inr (s\<lparr>model := (model s)\<lparr>state_dict := sd\<rparr>,
                 stdout := stdout s @
                   [''loaded trained model ver '' @ format_opt (pretrained_model cfg)]\<rparr>))"


section \<open>\<^verbatim>\<open>Solver.print_loss_log\<close>, \<^verbatim>\<open>Solver.train_evaluate\<close> and \<^verbatim>\<open>Solver.test\<close>\<close>

text \<open>
  The format string of \<^verbatim>\<open>print_loss_log\<close> is two adjacent literals,
  \<^verbatim>\<open>"Elapsed {}/{} -- {}, Epoch [{}/{}] Iter [{}/{}],"\<close> and \<^verbatim>\<open>"loss: {:.4f}"\<close>, which
  Python concatenates as they stand.
\<close>

definition loss_log_format ::
  "string \<Rightarrow> string \<Rightarrow> string \<Rightarrow> int \<Rightarrow> int \<Rightarrow> int \<Rightarrow> int \<Rightarrow> string \<Rightarrow> string" where
  "loss_log_format elapsed epoch_time total_time e1 n i1 iters loss4 =
     ''Elapsed '' @ elapsed @ ''/'' @ epoch_time @ '' -- '' @ total_time @
     '', Epoch ['' @ str_int e1 @ ''/'' @ str_int n @
     ''] Iter ['' @ str_int i1 @ ''/'' @ str_int iters @ ''],'' @
     ''loss: '' @ loss4"

definition print_loss_log ::
  "('p, 'o, 'x, 's, 'l) torch \<Rightarrow> config \<Rightarrow> ('p, 'o, 'l) solver \<Rightarrow>
   real \<Rightarrow> int \<Rightarrow> int \<Rightarrow> int \<Rightarrow> 'l \<Rightarrow> py_error + ('p, 'o, 'l) solver" where
  "print_loss_log T cfg s started iters_per_epoch e i loss =
     (let total_iter = num_epochs cfg * iters_per_epoch;
          cur_iter = e * iters_per_epoch + i;
          elapsed = clock T e - started
      in if cur_iter + 1 = 0 then Inl ZeroDivisionError
         else
           let total_time = real_of_int (total_iter - cur_iter) * elapsed
                              / real_of_int (cur_iter + 1);
               epoch_time = real_of_int (iters_per_epoch - i) * elapsed
                              / real_of_int (cur_iter + 1);
               log = loss_log_format (timedelta_str T elapsed) (timedelta_str T epoch_time)
                       (timedelta_str T total_time) (e + 1) (num_epochs cfg) (i + 1)
                       iters_per_epoch (format_4f_loss T loss)
           in Inr (s\<lparr>stdout := stdout s @ [log]\<rparr>))"

definition train_evaluate ::
  "('p, 'o, 'x, 's::linorder, 'l) torch \<Rightarrow> config \<Rightarrow> ('p, 'o, 'l) solver \<Rightarrow>
   ('x \<times> int list) list \<Rightarrow> int \<Rightarrow> py_error + ((real \<times> real) \<times> ('p, 'o, 'l) solver)" where
  "train_evaluate T cfg s data_loader e =
     (case eval T cfg s data_loader of
        Inl err \<Rightarrow> Inl err
      | Inr ((top_1_correct, top_5_correct, total_seen), s') \<Rightarrow>
          if total_seen = 0 then Inl ZeroDivisionError
          else
            let log = ''Epoch ['' @ str_int (e + 1) @ ''/'' @ str_int (num_epochs cfg) @
                      '']--top_1_acc: '' @ format_4f T (real top_1_correct / real total_seen) @
                      ''--top_5_acc: '' @ format_4f T (real top_5_correct / real total_seen)
            in Inr ((real top_1_correct / real total_seen,
                     real top_5_correct / real total_seen),
                    s'\<lparr>stdout := stdout s' @ [log]\<rparr>))"

definition test ::
  "('p, 'o, 'x, 's::linorder, 'l) torch \<Rightarrow> config \<Rightarrow> ('p, 'o, 'l) solver \<Rightarrow>
   ('x \<times> int list) list \<Rightarrow> py_error + ('p, 'o, 'l) solver" where
  "test T cfg s data_loader =
     (case eval T cfg s data_loader of
        Inl err \<Rightarrow> Inl err
      | Inr ((top_1_correct, top_5_correct, total_seen), s') \<Rightarrow>
          if total_seen = 0 then Inl ZeroDivisionError
          else
            let log = ''top_1_acc: '' @ format_4f T (real top_1_correct / real total_seen) @
                      ''--top_5_acc: '' @ format_4f T (real top_5_correct / real total_seen)
            in Inr (s'\<lparr>stdout := stdout s' @ [log]\<rparr>))"

section \<open>\<^verbatim>\<open>Solver.model_step\<close> and \<^verbatim>\<open>Solver.train\<close>\<close>

definition model_step ::
  "('p, 'o, 'x, 's, 'l) torch \<Rightarrow> ('p, 'o, 'l) solver \<Rightarrow> 'x \<Rightarrow> 'x \<Rightarrow>
   'l \<times> ('p, 'o, 'l) solver" where
  "model_step T s images labels =
     (let m1 = (model s)\<lparr>training := True\<rparr>;
          m2 = zero_grad T m1;
          (output, m3) = forward T m2 images;
          loss = criterion T output (squeeze T labels);
          m4 = backward T loss m3;
          m5 = optimizer_step T m4
      in (loss, s\<lparr>model := m5\<rparr>))"

text \<open>
  The inner loop of \<open>train\<close>, over \<^verbatim>\<open>enumerate(tqdm(self.data_loader))\<close> (the progress bar
  yields the batches unchanged).  The second conversion reads \<^verbatim>\<open>images\<close>, as line 145
  does.  The loop variables \<^verbatim>\<open>i\<close> and \<^verbatim>\<open>loss\<close> are locals of \<open>train\<close>: they are
  unbound until a first batch has run and keep their last values afterwards, which is the
  \<open>option\<close> carried along.
\<close>

fun train_batches ::
  "('p, 'o, 'x, 's, 'l) torch \<Rightarrow> config \<Rightarrow> (nat \<times> 'x \<times> int list) list \<Rightarrow>
   ('p, 'o, 'l) solver \<times> (nat \<times> 'l) option \<Rightarrow> ('p, 'o, 'l) solver \<times> (nat \<times> 'l) option" where
  "train_batches T cfg [] (s, bound) = (s, bound)"
| "train_batches T cfg ((i, (images0, labels0)) # rest) (s, bound) =
     (let images = to_var images0 (use_gpu cfg);
          labels = to_var images (use_gpu cfg);
          (loss, s') = model_step T s images labels
      in train_batches T cfg rest (s', Some (i, loss)))"

text \<open>The three periodic actions at the end of an epoch, in the order of the source.\<close>

definition log_loss_step ::
  "('p, 'o, 'x, 's, 'l) torch \<Rightarrow> config \<Rightarrow> int \<Rightarrow> int \<Rightarrow> (nat \<times> 'l) option \<Rightarrow>
   ('p, 'o, 'l) solver \<Rightarrow> py_error + ('p, 'o, 'l) solver" where
  "log_loss_step T cfg iters_per_epoch e bound s =
     (case py_mod (e + 1) (loss_log_step cfg) of
        Inl err \<Rightarrow> Inl err
      | Inr r \<Rightarrow>
          if r = 0 then
            (case bound of
               None \<Rightarrow> Inl UnboundLocalError
             | Some (i, loss) \<Rightarrow>
                 (case print_loss_log T cfg s (start_time T) iters_per_epoch e (int i) loss of
                    Inl err \<Rightarrow> Inl err
                  | Inr s' \<Rightarrow> Inr (s'\<lparr>losses := losses s' @ [(e, loss)]\<rparr>)))
          else Inr s)"

definition save_model_step ::
  "config \<Rightarrow> int \<Rightarrow> (nat \<times> 'l) option \<Rightarrow> ('p, 'o, 'l) solver \<Rightarrow>
   py_error + ('p, 'o, 'l) solver" where
  "save_model_step cfg e bound s =
     (case py_mod (e + 1) (model_save_step cfg) of
        Inl err \<Rightarrow> Inl err
      | Inr r \<Rightarrow>
          if r = 0 then
            (case bound of
               None \<Rightarrow> Inl UnboundLocalError
             | Some (i, loss) \<Rightarrow> Inr (save_model cfg s e (int i)))
          else Inr s)"

definition train_eval_epoch_step ::
  "('p, 'o, 'x, 's::linorder, 'l) torch \<Rightarrow> config \<Rightarrow> ('x \<times> int list) list \<Rightarrow> int \<Rightarrow>
   ('p, 'o, 'l) solver \<Rightarrow> py_error + ('p, 'o, 'l) solver" where
  "train_eval_epoch_step T cfg data_loader e s =
     (case py_mod (e + 1) (train_eval_step cfg) of
        Inl err \<Rightarrow> Inl err
      | Inr r \<Rightarrow>
          if r = 0 then
            (case train_evaluate T cfg s data_loader e of
               Inl err \<Rightarrow> Inl err
             | Inr ((acc1, acc5), s') \<Rightarrow>
                 Inr (s'\<lparr>top_1_acc := top_1_acc s' @ [(e, acc1)],
                         top_5_acc := top_5_acc s' @ [(e, acc5)]\<rparr>))
          else Inr s)"

text \<open>One pass of the body of \<^verbatim>\<open>for e in range(start, self.num_epochs)\<close>.\<close>

definition train_epoch ::
  "('p, 'o, 'x, 's::linorder, 'l) torch \<Rightarrow> config \<Rightarrow> ('x \<times> int list) list \<Rightarrow> int \<Rightarrow>
   ('p, 'o, 'l) solver \<times> (nat \<times> 'l) option \<Rightarrow>
   py_error + (('p, 'o, 'l) solver \<times> (nat \<times> 'l) option)" where
  "train_epoch T cfg data_loader e st =
     (case train_batches T cfg (enumerate 0 data_loader) st of
        (s1, bound) \<Rightarrow>
          (case log_loss_step T cfg (int (length data_loader)) e bound s1 of
             Inl err \<Rightarrow> Inl err
           | Inr s2 \<Rightarrow>
               (case save_model_step cfg e bound s2 of
                  Inl err \<Rightarrow> Inl err
                | Inr s3 \<Rightarrow>
                    (case train_eval_epoch_step T cfg data_loader e s3 of
                       Inl err \<Rightarrow> Inl err
                     | Inr s4 \<Rightarrow> Inr (s4, bound)))))"

fun train_epochs ::
  "('p, 'o, 'x, 's::linorder, 'l) torch \<Rightarrow> config \<Rightarrow> ('x \<times> int list) list \<Rightarrow> int list \<Rightarrow>
   ('p, 'o, 'l) solver \<times> (nat \<times> 'l) option \<Rightarrow>
   py_error + (('p, 'o, 'l) solver \<times> (nat \<times> 'l) option)" where
  "train_epochs T cfg data_loader [] st = Inr st"
| "train_epochs T cfg data_loader (e # es) st =
     (case train_epoch T cfg data_loader e st of
        Inl err \<Rightarrow> Inl err
      | Inr st' \<Rightarrow> train_epochs T cfg data_loader es st')"

text \<open>
  The epoch \<open>train\<close> starts from: \<^verbatim>\<open>int(self.pretrained_model.split('_')[0])\<close> when the
  identifier is set, else \<open>0\<close>.  \<^verbatim>\<open>None\<close> and the empty string count as not set
  (\<^verbatim>\<open>if self.pretrained_model:\<close>).
\<close>

definition start_epoch :: "config \<Rightarrow> py_error + int" where
  "start_epoch cfg =
     (case pretrained_model cfg of
        None \<Rightarrow> Inr 0
      | Some ident \<Rightarrow>
          if ident = [] then Inr 0
          else (case py_split CHR ''_'' ident of
                  [] \<Rightarrow> Inl IndexError
                | field0 # _ \<Rightarrow> py_int field0))"

definition train ::
  "('p, 'o, 'x, 's::linorder, 'l) torch \<Rightarrow> config \<Rightarrow> ('p, 'o, 'l) solver \<Rightarrow>
   ('x \<times> int list) list \<Rightarrow> py_error + ('p, 'o, 'l) solver" where
  "train T cfg s data_loader =
     (case start_epoch cfg of
        Inl err \<Rightarrow> Inl err
      | Inr start \<Rightarrow>
          (case train_epochs T cfg data_loader (py_range start (num_epochs cfg))
                  (s\<lparr>losses := [], top_1_acc := [], top_5_acc := []\<rparr>, None) of
             Inl err \<Rightarrow> Inl err
           | Inr (s', bound) \<Rightarrow> Inr s'))"


section \<open>Auxiliary notions for the statements\<close>

text \<open>
  A data source is well shaped for a network when every batch has as many labels as the
  network returns rows for its images, whatever state the network is in.
\<close>

definition well_shaped ::
  "('p, 'o, 'x, 's, 'l) torch \<Rightarrow> config \<Rightarrow> ('x \<times> int list) list \<Rightarrow> bool" where
  "well_shaped T cfg data_loader =
     (\<forall>(images, labels) \<in> set data_loader. \<forall>m.
        nrows (fst (forward T m (to_var images (use_gpu cfg)))) = length labels)"




text \<open>
  The counts in the spec's words, for a batch whose output has one row per label: a top-1
  match when the highest-scoring class equals the label, a top-5 match when the label is
  among the five classes selected; and their totals over a data source, with the number
  of examples, the network passing from batch to batch.
\<close>

definition top_1_hits :: "'s::linorder tensor2 \<Rightarrow> int list \<Rightarrow> nat" where
  "top_1_hits out labels =
     length (filter (\<lambda>(label, r). label = int (argmax r)) (zip labels (rows out)))"

definition top_5_hits ::
  "('p, 'o, 'x, 's, 'l) torch \<Rightarrow> 's tensor2 \<Rightarrow> int list \<Rightarrow> nat" where
  "top_5_hits T out labels =
     length (filter (\<lambda>(label, r). tensor_contains (topk T 5 r) label) (zip labels (rows out)))"

fun spec_tally ::
  "('p, 'o, 'x, 's::linorder, 'l) torch \<Rightarrow> config \<Rightarrow> ('p, 'o) net \<Rightarrow>
   ('x \<times> int list) list \<Rightarrow> nat \<times> nat \<times> nat" where
  "spec_tally T cfg m [] = (0, 0, 0)"
| "spec_tally T cfg m ((images, labels) # rest) =
     (case forward T m (to_var images (use_gpu cfg)) of
        (out, m') \<Rightarrow>
          (case spec_tally T cfg m' rest of
             (hits1, hits5, seen) \<Rightarrow>
               (top_1_hits out labels + hits1, top_5_hits T out labels + hits5,
                length labels + seen)))"

text \<open>
  The loss the last batch of a data source is trained with, when an epoch starts in state
  \<open>s\<close>: the result of \<open>model_step\<close> on that batch, after the batches before it.
\<close>

definition final_batch_loss ::
  "('p, 'o, 'x, 's, 'l) torch \<Rightarrow> config \<Rightarrow> ('x \<times> int list) list \<Rightarrow>
   ('p, 'o, 'l) solver \<Rightarrow> 'l" where
  "final_batch_loss T cfg data_loader s =
     fst (model_step T
            (fst (train_batches T cfg (enumerate 0 (butlast data_loader)) (s, None)))
            (to_var (fst (last data_loader)) (use_gpu cfg))
            (to_var (to_var (fst (last data_loader)) (use_gpu cfg)) (use_gpu cfg)))"

text \<open>The line the spec gives for the loss log, with a space before \<^verbatim>\<open>loss:\<close>.\<close>

definition spec_loss_log_format ::
  "string \<Rightarrow> string \<Rightarrow> string \<Rightarrow> int \<Rightarrow> int \<Rightarrow> int \<Rightarrow> int \<Rightarrow> string \<Rightarrow> string" where
  "spec_loss_log_format elapsed epoch_time total_time e1 n i1 iters loss4 =
     ''Elapsed '' @ elapsed @ ''/'' @ epoch_time @ '' -- '' @ total_time @
     '', Epoch ['' @ str_int e1 @ ''/'' @ str_int n @
     ''] Iter ['' @ str_int i1 @ ''/'' @ str_int iters @ ''], loss: '' @ loss4"

text \<open>The line the spec gives for an evaluation.\<close>

definition spec_eval_format :: "string \<Rightarrow> string \<Rightarrow> string" where
  "spec_eval_format acc1 acc5 = ''top_1_acc: '' @ acc1 @ ''--top_5_acc: '' @ acc5"

text \<open>
  A printed line is a loss-log line when it starts like one; \<open>loss_log_line_of\<close> says that
  a line is the loss log of a logged pair (epoch, loss) at the end of an epoch of \<open>iters\<close>
  batches, whatever the three time fields are.
\<close>

definition is_loss_log :: "string \<Rightarrow> bool" where
  "is_loss_log line = (take 8 line = ''Elapsed '')"

definition loss_log_line_of ::
  "('p, 'o, 'x, 's, 'l) torch \<Rightarrow> config \<Rightarrow> nat \<Rightarrow> string \<Rightarrow> int \<times> 'l \<Rightarrow> bool" where
  "loss_log_line_of T cfg iters line logged =
     (\<exists>a b c. line = loss_log_format a b c (fst logged + 1) (num_epochs cfg)
                        (int iters) (int iters) (format_4f_loss T (snd logged)))"

text \<open>
  What \<^verbatim>\<open>os.path.join\<close> puts in front of a relative name: the directory and one
  separator, unless the directory is empty or already ends in one.
\<close>

definition dir_prefix :: "string \<Rightarrow> string" where
  "dir_prefix d = (if d = [] then [] else if last d = CHR ''/'' then d else d @ ''/'')"

text \<open>
  The configuration of a later run that names the checkpoint \<open>save_model cfg s e i\<close>
  wrote: its \<^verbatim>\<open>pretrained_model\<close> is the file name without \<^verbatim>\<open>.pth\<close>.
\<close>

definition resumed_config :: "config \<Rightarrow> int \<Rightarrow> int \<Rightarrow> config" where
  "resumed_config cfg e i =
     cfg\<lparr>pretrained_model :=
           Some (version cfg @ ''_'' @ str_int (e + 1) @ ''_'' @ str_int (i + 1))\<rparr>"

section \<open>A small framework to run the solver on\<close>

text \<open>
  Images are lists of integers, one per example.  The toy network has \<open>classes\<close> classes
  and one parameter, a counter of optimizer steps; it scores class \<open>j\<close> with \<open>j\<close>,
  except the class named by the image, which scores ten plus the parameter.  The toy loss
  is the first score of the output followed by the target it was computed against.  Its
  top-k selection sorts the positions by score and takes the last \<open>k\<close>, highest first: among
  equal scores it prefers the higher position.
\<close>

definition toy_forward :: "nat \<Rightarrow> (nat, nat) net \<Rightarrow> int list \<Rightarrow> int tensor2 \<times> (nat, nat) net" where
  "toy_forward classes m x =
     (Tensor2 (length x) classes
        (\<lambda>i j. if int j = x ! i then 10 + int (state_dict m) else int j), m)"

definition toy_topk :: "nat \<Rightarrow> int list \<Rightarrow> nat list" where
  "toy_topk k xs = take k (rev (sort_key (\<lambda>i. xs ! i) [0..<length xs]))"

definition toy_torch :: "nat \<Rightarrow> (nat, nat, int list, int, int list) torch" where
  "toy_torch classes =
     \<lparr>forward = toy_forward classes,
      topk = toy_topk,
      criterion = (\<lambda>output target. entry output 0 0 # target),
      squeeze = (\<lambda>x. x),
      backward = (\<lambda>loss m. m),
      zero_grad = (\<lambda>m. m),
      optimizer_step = (\<lambda>m. m\<lparr>state_dict := state_dict m + 1, aux := aux m + 1\<rparr>),
      start_time = 0,
      clock = (\<lambda>e. 1),
      timedelta_str = (\<lambda>r. ''0:00:01''),
      format_4f_loss = (\<lambda>l. ''0.2500''),
      format_4f = (\<lambda>r. ''0.5000'')\<rparr>"


definition toy_solver :: "(nat, nat, int list) solver" where
  "toy_solver =
     \<lparr>model = \<lparr>state_dict = 0, training = False, aux = 0\<rparr>,
      losses = [], top_1_acc = [], top_5_acc = [], stdout = [], files = Map.empty\<rparr>"

definition toy_config :: config where
  "toy_config =
     \<lparr>version = ''vgg'', model_save_path = ''models'', pretrained_model = None,
      num_epochs = 10, loss_log_step = 2, model_save_step = 5, train_eval_step = 10,
      use_gpu = False\<rparr>"

definition toy_loader :: "(int list \<times> int list) list" where
  "toy_loader = [([2, 3], [2, 5]), ([0], [1])]"

section \<open>Properties of the evaluator\<close>

subsection \<open>The highest-scoring class and the selection of five\<close>





subsection \<open>One batch\<close>

lemma torch_eq_same_length:
  "length ls = length ts \<Longrightarrow>
   torch_eq (squeeze_labels ls) ts = Inr (map2 (\<lambda>l t. l = int t) ls ts)"
  by (auto simp: torch_eq_def squeeze_labels_def split: list.splits)

lemma top_5_loop_count:
  "k + length ls \<le> length t5 \<Longrightarrow>
   top_5_loop t5 (enumerate k ls) c =
     Inr (c + length (filter (\<lambda>(i, l). tensor_contains (t5 ! i) l) (enumerate k ls)))"
  by (induction ls arbitrary: k c) auto

lemma top_5_loop_error: "top_5_loop t5 ps c = Inl e \<Longrightarrow> e = TorchError"
  by (induction t5 ps c rule: top_5_loop.induct) (auto split: if_splits)

lemma length_filter_map: "length (filter P (map f xs)) = length (filter (\<lambda>x. P (f x)) xs)"
  by (induction xs) auto

lemma torch_sum_argmax:
  "torch_sum (map2 (\<lambda>l t. l = int t) ls (map argmax rs)) =
   length (filter (\<lambda>(l, r). l = int (argmax r)) (zip ls rs))"
proof -
  have "map2 (\<lambda>l t. l = int t) ls (map argmax rs) = map (\<lambda>(l, r). l = int (argmax r)) (zip ls rs)"
    by (simp add: zip_map2 case_prod_unfold)
  then show ?thesis by (simp add: torch_sum_def length_filter_map case_prod_unfold comp_def)
qed

lemma top_5_count_zip:
  assumes "length ls \<le> length rs"
  shows "length (filter (\<lambda>(i, l). tensor_contains (map f rs ! i) l) (enumerate 0 ls)) =
         length (filter (\<lambda>(l, r). tensor_contains (f r) l) (zip ls rs))"
proof -
  have "map (\<lambda>(i, l). tensor_contains (map f rs ! i) l) (enumerate 0 ls) =
        map (\<lambda>(l, r). tensor_contains (f r) l) (zip ls rs)"
    using assms by (intro nth_equalityI) (simp_all add: nth_enumerate_eq)
  then have "length (filter (\<lambda>b. b) (map (\<lambda>(i, l). tensor_contains (map f rs ! i) l) (enumerate 0 ls)))
      = length (filter (\<lambda>b. b) (map (\<lambda>(l, r). tensor_contains (f r) l) (zip ls rs)))"
    by simp
  then show ?thesis by (simp add: length_filter_map comp_def)
qed

lemma length_rows: "length (rows t) = nrows t"
  by (simp add: rows_def)



lemma eval_batch_returns:
  assumes fw: "forward T (model s) (to_var x (use_gpu cfg)) = (out, m)"
    and len: "nrows out = length ls" and cols: "5 \<le> ncols out"
  shows "eval_batch T cfg (x, ls) (c1, c5, n, s) =
           Inr (Tensor0 (count_value c1 + top_1_hits out ls), c5 + top_5_hits T out ls,
                n + length ls, s\<lparr>model := m\<rparr>)"
proof -
  have eq: "torch_eq (squeeze_labels ls) (map argmax (rows out))
            = Inr (map2 (\<lambda>l t. l = int t) ls (map argmax (rows out)))"
    by (rule torch_eq_same_length) (simp add: length_rows len)
  have loop: "top_5_loop (map (topk T 5) (rows out)) (enumerate 0 ls) c5 =
      Inr (c5 + length (filter (\<lambda>(i, l). tensor_contains (map (topk T 5) (rows out) ! i) l)
                          (enumerate 0 ls)))"
    by (rule top_5_loop_count) (simp add: length_rows len)
  have max: "torch_max_dim1 out = Inr (map argmax (rows out))"
    using cols by (simp add: torch_max_dim1_def)
  have topk: "torch_topk_dim1 (topk T) 5 out = Inr (map (topk T 5) (rows out))"
    using cols by (simp add: torch_topk_dim1_def)
  have z: "length (filter (\<lambda>(i, l). tensor_contains (map (topk T 5) (rows out) ! i) l)
                          (enumerate 0 ls)) = top_5_hits T out ls"
    unfolding top_5_hits_def by (rule top_5_count_zip) (simp add: length_rows len)
  show ?thesis
    using fw eq loop max topk
    by (simp add: eval_batch_def to_var_def add_tensor_def torch_sum_argmax top_1_hits_def z)
qed

lemma eval_batch_needs_five:
  assumes "eval_batch T cfg (x, ls) (c1, c5, n, s) = Inr r"
  shows "5 \<le> ncols (fst (forward T (model s) (to_var x (use_gpu cfg))))"
  using assms
  by (auto simp: eval_batch_def Let_def torch_topk_dim1_def to_var_def
      split: prod.splits sum.splits if_splits)




subsection \<open>The whole data source\<close>

lemma well_shaped_Cons:
  "well_shaped T cfg ((x, ls) # dl) \<Longrightarrow>
   (\<forall>m. nrows (fst (forward T m (to_var x (use_gpu cfg)))) = length ls) \<and> well_shaped T cfg dl"
  by (simp add: well_shaped_def)

lemma eval_batch_well_shaped:
  assumes ok: "eval_batch T cfg (x, ls) (c1, c5, n, s) = Inr r"
    and len: "nrows (fst (forward T (model s) (to_var x (use_gpu cfg)))) = length ls"
  obtains out m where "forward T (model s) (to_var x (use_gpu cfg)) = (out, m)"
    and "nrows out = length ls" and "5 \<le> ncols out"
    and "r = (Tensor0 (count_value c1 + top_1_hits out ls), c5 + top_5_hits T out ls,
              n + length ls, s\<lparr>model := m\<rparr>)"
proof -
  obtain out m where fw: "forward T (model s) (to_var x (use_gpu cfg)) = (out, m)"
    by (cases "forward T (model s) (to_var x (use_gpu cfg))") auto
  have l: "nrows out = length ls" using len fw by simp
  have c: "5 \<le> ncols out" using eval_batch_needs_five [OF ok] fw by simp
  from eval_batch_returns [OF fw l c, of c1 c5 n] ok
  have "r = (Tensor0 (count_value c1 + top_1_hits out ls), c5 + top_5_hits T out ls,
              n + length ls, s\<lparr>model := m\<rparr>)" by simp
  then show ?thesis using that fw l c by blast
qed

lemma eval_loop_tally:
  assumes "eval_loop T cfg dl (c1, c5, n, s) = Inr (c1', c5', n', s')"
    and "well_shaped T cfg dl"
  shows "(count_value c1', c5', n') =
         (case spec_tally T cfg (model s) dl of
            (hits1, hits5, seen) \<Rightarrow> (count_value c1 + hits1, c5 + hits5, n + seen))"
  using assms
proof (induction dl arbitrary: c1 c5 n s)
  case Nil
  then show ?case by simp
next
  case (Cons b dl)
  obtain x ls where b: "b = (x, ls)" by (cases b) auto
  from Cons.prems(1) obtain r where
    step: "eval_batch T cfg (x, ls) (c1, c5, n, s) = Inr r" and
    rest: "eval_loop T cfg dl r = Inr (c1', c5', n', s')"
    by (auto simp: b split: sum.splits)
  from well_shaped_Cons [OF Cons.prems(2) [unfolded b]]
  have len: "nrows (fst (forward T (model s) (to_var x (use_gpu cfg)))) = length ls"
    and ws: "well_shaped T cfg dl" by simp_all
  from eval_batch_well_shaped [OF step len] obtain out m where
    fw: "forward T (model s) (to_var x (use_gpu cfg)) = (out, m)" and
    r: "r = (Tensor0 (count_value c1 + top_1_hits out ls), c5 + top_5_hits T out ls,
              n + length ls, s\<lparr>model := m\<rparr>)"
    by blast
  from Cons.IH [OF rest [unfolded r] ws]
  show ?case by (simp add: b fw split: prod.splits)
qed

lemma eval_tally:
  assumes "eval T cfg s dl = Inr (counts, s')" and "well_shaped T cfg dl"
  shows "counts = spec_tally T cfg ((model s)\<lparr>training := False\<rparr>) dl"
proof -
  from assms(1) obtain c1 c5 n where
    loop: "eval_loop T cfg dl (PyInt 0, 0, 0, s\<lparr>model := (model s)\<lparr>training := False\<rparr>\<rparr>)
           = Inr (c1, c5, n, s')" and
    it: "item c1 = Inr (fst counts)" and c: "counts = (fst counts, c5, n)"
    by (auto simp: eval_def split: sum.splits prod.splits)
  have "count_value c1 = fst counts" using it by (cases c1) auto
  with eval_loop_tally [OF loop assms(2)] c show ?thesis
    by (cases "spec_tally T cfg ((model s)\<lparr>training := False\<rparr>) dl") (auto split: prod.splits)
qed




subsection \<open>The toy selection, and the two counts compared\<close>



lemma toy_well_shaped: "well_shaped (toy_torch c) toy_config toy_loader"
  by (simp add: well_shaped_def toy_torch_def toy_forward_def toy_loader_def to_var_def)






subsection \<open>What the evaluator returns and where it fails\<close>

lemma eval_batch_error: "eval_batch T cfg b acc = Inl e \<Longrightarrow> e = TorchError"
  by (auto simp: eval_batch_def Let_def torch_max_dim1_def torch_topk_dim1_def torch_eq_def
      split: prod.splits sum.splits if_splits squeezed.splits list.splits
      dest: top_5_loop_error)

lemma eval_loop_error: "eval_loop T cfg dl acc = Inl e \<Longrightarrow> e = TorchError"
  by (induction dl arbitrary: acc) (auto split: sum.splits dest: eval_batch_error)

lemma item_error: "item c = Inl e \<Longrightarrow> e = AttributeError"
  by (cases c) auto

lemma eval_batch_total:
  "eval_batch T cfg (x, ls) (c1, c5, n, s) = Inr (c1', c5', n', s') \<Longrightarrow> n' = n + length ls"
  by (auto simp: eval_batch_def Let_def to_var_def split: prod.splits sum.splits)

lemma eval_loop_total:
  "eval_loop T cfg dl (c1, c5, n, s) = Inr (c1', c5', n', s') \<Longrightarrow>
   n' = n + sum_list (map (\<lambda>b. length (snd b)) dl)"
proof (induction dl arbitrary: c1 c5 n s)
  case Nil
  then show ?case by simp
next
  case (Cons b dl)
  obtain x ls where b: "b = (x, ls)" by (cases b) auto
  from Cons.prems obtain d1 d5 k t where
    step: "eval_batch T cfg (x, ls) (c1, c5, n, s) = Inr (d1, d5, k, t)" and
    rest: "eval_loop T cfg dl (d1, d5, k, t) = Inr (c1', c5', n', s')"
    by (auto simp: b split: sum.splits)
  show ?case using eval_batch_total [OF step] Cons.IH [OF rest] by (simp add: b)
qed

lemma eval_total:
  assumes "eval T cfg s dl = Inr ((t1, t5, n), s')"
  shows "n = sum_list (map (\<lambda>b. length (snd b)) dl)"
proof -
  from assms obtain c1 where
    "eval_loop T cfg dl (PyInt 0, 0, 0, s\<lparr>model := (model s)\<lparr>training := False\<rparr>\<rparr>)
     = Inr (c1, t5, n, s')"
    by (auto simp: eval_def split: sum.splits prod.splits)
  from eval_loop_total [OF this] show ?thesis by simp
qed

text \<open>
  C6.  On the data source with no batch \<open>eval\<close> does not return the three counts: no
  \<^verbatim>\<open>torch.sum\<close> has been added, \<^verbatim>\<open>top_1_correct\<close> is still the integer \<open>0\<close>, and
  \<^verbatim>\<open>top_1_correct.item()\<close> raises \<^verbatim>\<open>AttributeError\<close>.  The other two counts are returned
  as the integers they are.
\<close>

theorem eval_empty_data_source: "eval T cfg s [] = Inl AttributeError"
  by (simp add: eval_def)

text \<open>
  What does hold of C6: \<open>eval\<close> never raises \<^verbatim>\<open>ZeroDivisionError\<close>, whatever the data
  source, the empty one included; it divides nowhere.  Whenever it returns, it returns the
  three counts: the third is the number of labels in the data source, and on a
  well-shaped data source the first two are the numbers of top-1 and top-5 matches in the
  spec's words.  The division by the total is in its callers \<open>train_evaluate\<close> and
  \<open>test\<close>, which raise the error when the total is zero.
\<close>

theorem eval_divides_only_in_callers:
  "eval T cfg s data_loader \<noteq> Inl ZeroDivisionError \<and>
   (\<forall>counts s'.
      eval T cfg s data_loader = Inr (counts, s') \<longrightarrow>
      snd (snd counts) = sum_list (map (\<lambda>batch. length (snd batch)) data_loader) \<and>
      (well_shaped T cfg data_loader \<longrightarrow>
         counts = spec_tally T cfg ((model s)\<lparr>training := False\<rparr>) data_loader) \<and>
      (snd (snd counts) = 0 \<longrightarrow>
         train_evaluate T cfg s data_loader e = Inl ZeroDivisionError \<and>
         test T cfg s data_loader = Inl ZeroDivisionError))"
proof -
  have a: "eval T cfg s data_loader \<noteq> Inl ZeroDivisionError"
    by (auto simp: eval_def split: sum.splits prod.splits dest: eval_loop_error item_error)
  have b: "snd (snd counts) = sum_list (map (\<lambda>batch. length (snd batch)) data_loader)"
    if "eval T cfg s data_loader = Inr (counts, s')" for counts s'
    using that eval_total [of T cfg s data_loader "fst counts" "fst (snd counts)" "snd (snd counts)" s']
    by simp
  have c: "counts = spec_tally T cfg ((model s)\<lparr>training := False\<rparr>) data_loader"
    if "eval T cfg s data_loader = Inr (counts, s')" "well_shaped T cfg data_loader" for counts s'
    using that by (rule eval_tally)
  have d: "train_evaluate T cfg s data_loader e = Inl ZeroDivisionError \<and>
           test T cfg s data_loader = Inl ZeroDivisionError"
    if "eval T cfg s data_loader = Inr (counts, s')" "snd (snd counts) = 0" for counts s'
    using that by (cases counts) (auto simp: train_evaluate_def test_def)
  show ?thesis using a b c d by blast
qed

theorem eval_divides_only_in_callers_witness:
  "eval (toy_torch 6) toy_config toy_solver toy_loader \<noteq> Inl ZeroDivisionError \<and>
   map_sum id fst (eval (toy_torch 6) toy_config toy_solver toy_loader) = Inr (1, 2, 3) \<and>
   spec_tally (toy_torch 6) toy_config ((model toy_solver)\<lparr>training := False\<rparr>) toy_loader
     = (1, 2, 3) \<and>
   map_sum id fst (eval (toy_torch 6) toy_config toy_solver [([], [])]) = Inr (0, 0, 0) \<and>
   train_evaluate (toy_torch 6) toy_config toy_solver [([], [])] 0 = Inl ZeroDivisionError \<and>
   test (toy_torch 6) toy_config toy_solver [([], [])] = Inl ZeroDivisionError"
proof -
  have ev: "map_sum id fst (eval (toy_torch 6) toy_config toy_solver toy_loader) = Inr (1, 2, 3)"
    by code_simp
  then obtain s1 where
    e1: "eval (toy_torch 6) toy_config toy_solver toy_loader = Inr ((1, 2, 3), s1)"
    by (cases "eval (toy_torch 6) toy_config toy_solver toy_loader") auto
  have ev0: "map_sum id fst (eval (toy_torch 6) toy_config toy_solver [([], [])]) = Inr (0, 0, 0)"
    by code_simp
  then obtain s0 where
    e0: "eval (toy_torch 6) toy_config toy_solver [([], [])] = Inr ((0, 0, 0), s0)"
    by (cases "eval (toy_torch 6) toy_config toy_solver [([], [])]") auto
  from eval_divides_only_in_callers [of "toy_torch 6" toy_config toy_solver toy_loader 0]
    e1 toy_well_shaped [of 6]
  have t: "(1, 2, 3) =
      spec_tally (toy_torch 6) toy_config ((model toy_solver)\<lparr>training := False\<rparr>) toy_loader"
    by blast
  from eval_divides_only_in_callers [of "toy_torch 6" toy_config toy_solver "[([], [])]" 0] e0
  have z: "train_evaluate (toy_torch 6) toy_config toy_solver [([], [])] 0 = Inl ZeroDivisionError \<and>
           test (toy_torch 6) toy_config toy_solver [([], [])] = Inl ZeroDivisionError"
    by simp
  show ?thesis using ev ev0 e1 t z by simp
qed

lemma eval_batch_few_classes:
  assumes "ncols (fst (forward T (model s) (to_var x (use_gpu cfg)))) < 5"
  shows "eval_batch T cfg (x, ls) (c1, c5, n, s) = Inl TorchError"
proof (cases "eval_batch T cfg (x, ls) (c1, c5, n, s)")
  case (Inl e)
  then show ?thesis using eval_batch_error [OF Inl] by simp
next
  case (Inr r)
  from eval_batch_needs_five [OF Inr] assms show ?thesis by simp
qed

text \<open>
  With five classes or more, \<open>eval\<close> returns on every well-shaped data source that has a
  batch.
\<close>

lemma eval_loop_returns:
  assumes "well_shaped T cfg dl"
    and "\<forall>m x. 5 \<le> ncols (fst (forward T m x))"
    and "dl \<noteq> [] \<or> (\<exists>k. c1 = Tensor0 k)"
  shows "\<exists>k c5' n' s'. eval_loop T cfg dl (c1, c5, n, s) = Inr (Tensor0 k, c5', n', s')"
  using assms(1,3)
proof (induction dl arbitrary: c1 c5 n s)
  case Nil
  then show ?case by auto
next
  case (Cons b dl)
  obtain x ls where b: "b = (x, ls)" by (cases b) auto
  from well_shaped_Cons [OF Cons.prems(1) [unfolded b]]
  have len: "nrows (fst (forward T (model s) (to_var x (use_gpu cfg)))) = length ls"
    and ws: "well_shaped T cfg dl" by simp_all
  obtain out m where fw: "forward T (model s) (to_var x (use_gpu cfg)) = (out, m)"
    by (cases "forward T (model s) (to_var x (use_gpu cfg))") auto
  have l: "nrows out = length ls" using len fw by simp
  have c: "5 \<le> ncols out" using assms(2) fw by (metis fst_conv)
  from Cons.IH [OF ws, of "Tensor0 (count_value c1 + top_1_hits out ls)"
      "c5 + top_5_hits T out ls" "n + length ls" "s\<lparr>model := m\<rparr>"]
  show ?case using eval_batch_returns [OF fw l c, of c1 c5 n] by (simp add: b)
qed

lemma eval_returns:
  assumes "data_loader \<noteq> []" and "well_shaped T cfg data_loader"
    and "\<forall>m x. 5 \<le> ncols (fst (forward T m x))"
  shows "\<exists>counts s'. eval T cfg s data_loader = Inr (counts, s')"
proof -
  from eval_loop_returns [OF assms(2,3), of "PyInt 0" 0 0
      "s\<lparr>model := (model s)\<lparr>training := False\<rparr>\<rparr>"] assms(1)
  obtain k c5' n' s' where
    "eval_loop T cfg data_loader (PyInt 0, 0, 0, s\<lparr>model := (model s)\<lparr>training := False\<rparr>\<rparr>)
        = Inr (Tensor0 k, c5', n', s')"
    by auto
  then show ?thesis by (simp add: eval_def)
qed

text \<open>
  C10.  \<open>eval\<close> asks \<^verbatim>\<open>torch.topk\<close> for five classes of every output, whatever the
  network: when the network has fewer than five classes the top-5 computation fails on
  every output and \<open>eval\<close> fails on every data source that has a batch.
\<close>

theorem eval_top_5_needs_five_classes:
  assumes "data_loader \<noteq> []"
    and "\<forall>m x. ncols (fst (forward T m x)) < 5"
  shows "eval T cfg s data_loader = Inl TorchError \<and>
         torch_topk_dim1 (topk T) 5 (fst (forward T m x)) = Inl TorchError"
proof -
  obtain x0 ls rest where dl: "data_loader = (x0, ls) # rest"
    using assms(1) by (cases data_loader) auto
  have "eval_batch T cfg (x0, ls) (PyInt 0, 0, 0, s\<lparr>model := (model s)\<lparr>training := False\<rparr>\<rparr>)
        = Inl TorchError"
    by (rule eval_batch_few_classes) (simp add: assms(2))
  then show ?thesis using assms(2) by (simp add: eval_def dl torch_topk_dim1_def)
qed

theorem eval_top_5_needs_five_classes_witness:
  "toy_loader \<noteq> [] \<and> eval (toy_torch 3) toy_config toy_solver toy_loader = Inl TorchError"
proof -
  have ne: "toy_loader \<noteq> []" by (simp add: toy_loader_def)
  have few: "\<forall>m x. ncols (fst (forward (toy_torch 3) m x)) < 5"
    by (simp add: toy_torch_def toy_forward_def)
  from conjunct1 [OF eval_top_5_needs_five_classes [OF ne few]] ne show ?thesis by simp
qed

section \<open>Properties of the training loop\<close>

subsection \<open>What each method leaves alone\<close>

lemma model_step_frame: "\<exists>m. snd (model_step T s x y) = s\<lparr>model := m\<rparr>"
  by (auto simp: model_step_def Let_def split: prod.splits)

lemma train_batches_frame: "\<exists>m. fst (train_batches T cfg bs (s, b)) = s\<lparr>model := m\<rparr>"
proof (induction bs arbitrary: s b)
  case Nil
  have "s = s\<lparr>model := model s\<rparr>" by simp
  then show ?case by (metis train_batches.simps(1) fst_conv)
next
  case (Cons a bs)
  obtain i x l where a: "a = (i, x, l)" by (cases a) auto
  obtain loss s1 where ms: "model_step T s (to_var x (use_gpu cfg))
      (to_var (to_var x (use_gpu cfg)) (use_gpu cfg)) = (loss, s1)"
    by (cases "model_step T s (to_var x (use_gpu cfg))
      (to_var (to_var x (use_gpu cfg)) (use_gpu cfg))") auto
  from model_step_frame [of T s] ms obtain m1 where s1: "s1 = s\<lparr>model := m1\<rparr>"
    by (metis snd_conv)
  from Cons.IH [of s1 "Some (i, loss)"] obtain m where
    "fst (train_batches T cfg bs (s1, Some (i, loss))) = s1\<lparr>model := m\<rparr>" by blast
  then show ?case using a ms s1 by (auto simp: Let_def)
qed

lemma train_batches_bound_irrelevant:
  "fst (train_batches T cfg bs (s, b)) = fst (train_batches T cfg bs (s, b'))"
  by (cases bs) (auto simp: Let_def split: prod.splits)

lemma train_batches_append:
  "train_batches T cfg (as @ bs) st = train_batches T cfg bs (train_batches T cfg as st)"
  by (induction as arbitrary: st) (auto simp: Let_def split: prod.splits)

lemma train_batches_empty_bound:
  "snd (train_batches T cfg [] (s, b)) = b"
  by simp

lemma train_batches_final:
  assumes "dl \<noteq> []"
  shows "snd (train_batches T cfg (enumerate 0 dl) (s, b)) =
         Some (length dl - 1, final_batch_loss T cfg dl s)"
proof -
  have dl: "dl = butlast dl @ [last dl]" using assms by simp
  have en: "enumerate 0 dl = enumerate 0 (butlast dl) @ [(length dl - 1, last dl)]"
  proof -
    have "enumerate 0 (butlast dl @ [last dl]) =
          enumerate 0 (butlast dl) @ [(length (butlast dl), last dl)]"
      by (simp add: enumerate_append_eq)
    then show ?thesis using dl by simp
  qed
  obtain s1 b1 where pre: "train_batches T cfg (enumerate 0 (butlast dl)) (s, b) = (s1, b1)"
    by (cases "train_batches T cfg (enumerate 0 (butlast dl)) (s, b)") auto
  have s1: "s1 = fst (train_batches T cfg (enumerate 0 (butlast dl)) (s, None))"
    using pre train_batches_bound_irrelevant [of T cfg "enumerate 0 (butlast dl)" s b None]
    by simp
  obtain x l where lst: "last dl = (x, l)" by (cases "last dl") auto
  show ?thesis
    unfolding en train_batches_append pre
    using s1 lst
    by (simp add: final_batch_loss_def Let_def split: prod.splits)
qed

lemma eval_batch_frame:
  "eval_batch T cfg b (c1, c5, n, s) = Inr (c1', c5', n', s') \<Longrightarrow> \<exists>m. s' = s\<lparr>model := m\<rparr>"
  by (auto simp: eval_batch_def Let_def split: prod.splits sum.splits)

lemma eval_loop_frame:
  "eval_loop T cfg dl (c1, c5, n, s) = Inr (c1', c5', n', s') \<Longrightarrow> \<exists>m. s' = s\<lparr>model := m\<rparr>"
proof (induction dl arbitrary: c1 c5 n s)
  case Nil
  then have "s' = s\<lparr>model := model s\<rparr>" by simp
  then show ?case by blast
next
  case (Cons b dl)
  from Cons.prems obtain d1 d5 k t where
    step: "eval_batch T cfg b (c1, c5, n, s) = Inr (d1, d5, k, t)" and
    rest: "eval_loop T cfg dl (d1, d5, k, t) = Inr (c1', c5', n', s')"
    by (auto split: sum.splits)
  from eval_batch_frame [OF step] obtain m1 where "t = s\<lparr>model := m1\<rparr>" by blast
  moreover from Cons.IH [OF rest] obtain m2 where "s' = t\<lparr>model := m2\<rparr>" by blast
  ultimately have "s' = s\<lparr>model := m2\<rparr>" by simp
  then show ?case by blast
qed

lemma eval_frame:
  assumes "eval T cfg s dl = Inr (r, s')"
  shows "\<exists>m. s' = s\<lparr>model := m\<rparr>"
proof -
  from assms obtain c1 c5 n where
    "eval_loop T cfg dl (PyInt 0, 0, 0, s\<lparr>model := (model s)\<lparr>training := False\<rparr>\<rparr>)
     = Inr (c1, c5, n, s')"
    by (auto simp: eval_def split: sum.splits prod.splits)
  from eval_loop_frame [OF this] obtain m where
    "s' = s\<lparr>model := (model s)\<lparr>training := False\<rparr>\<rparr>\<lparr>model := m\<rparr>" by blast
  then have "s' = s\<lparr>model := m\<rparr>" by simp
  then show ?thesis by blast
qed


subsection \<open>The periodic actions\<close>

lemma is_loss_log_format [simp]: "is_loss_log (loss_log_format a b c e1 n i1 k l)"
  by (simp add: is_loss_log_def loss_log_format_def)

lemma print_loss_log_line:
  assumes "print_loss_log T cfg s t0 n e i loss = Inr s'"
  shows "\<exists>a b c. s' = s\<lparr>stdout := stdout s @
            [loss_log_format a b c (e + 1) (num_epochs cfg) (i + 1) n (format_4f_loss T loss)]\<rparr>"
  using assms by (auto simp: print_loss_log_def Let_def split: if_splits)

lemma log_loss_step_skip:
  assumes "log_loss_step T cfg n e bound s = Inr s'" "(e + 1) mod loss_log_step cfg \<noteq> 0"
  shows "s' = s"
  using assms by (auto simp: log_loss_step_def py_mod_def split: if_splits)

lemma log_loss_step_fire:
  assumes "log_loss_step T cfg n e bound s = Inr s'" "(e + 1) mod loss_log_step cfg = 0"
  shows "\<exists>i loss a b c. bound = Some (i, loss) \<and>
           s' = s\<lparr>stdout := stdout s @
                   [loss_log_format a b c (e + 1) (num_epochs cfg) (int i + 1) n
                      (format_4f_loss T loss)],
                 losses := losses s @ [(e, loss)]\<rparr>"
proof -
  from assms obtain i loss s1 where b: "bound = Some (i, loss)"
    and p: "print_loss_log T cfg s (start_time T) n e (int i) loss = Inr s1"
    and s': "s' = s1\<lparr>losses := losses s1 @ [(e, loss)]\<rparr>"
    by (auto simp: log_loss_step_def py_mod_def split: if_splits option.splits sum.splits)
  from print_loss_log_line [OF p] obtain a b' c where
    "s1 = s\<lparr>stdout := stdout s @
       [loss_log_format a b' c (e + 1) (num_epochs cfg) (int i + 1) n (format_4f_loss T loss)]\<rparr>"
    by blast
  then show ?thesis using b s' by auto
qed

lemma save_model_step_frame:
  assumes "save_model_step cfg e bound s = Inr s'"
  shows "stdout s' = stdout s \<and> losses s' = losses s"
  using assms
  by (auto simp: save_model_step_def save_model_def py_mod_def
      split: if_splits option.splits)

lemma train_evaluate_line:
  assumes "train_evaluate T cfg s dl e = Inr (accs, s')"
  shows "losses s' = losses s \<and>
         stdout s' = stdout s @
           [''Epoch ['' @ str_int (e + 1) @ ''/'' @ str_int (num_epochs cfg) @
            '']--top_1_acc: '' @ format_4f T (fst accs) @
            ''--top_5_acc: '' @ format_4f T (snd accs)]"
proof -
  from assms obtain t1 t5 n s1 where ev: "eval T cfg s dl = Inr ((t1, t5, n), s1)"
    and n: "n \<noteq> 0"
    and accs: "accs = (real t1 / real n, real t5 / real n)"
    and s': "s' = s1\<lparr>stdout := stdout s1 @
           [''Epoch ['' @ str_int (e + 1) @ ''/'' @ str_int (num_epochs cfg) @
            '']--top_1_acc: '' @ format_4f T (real t1 / real n) @
            ''--top_5_acc: '' @ format_4f T (real t5 / real n)]\<rparr>"
    by (auto simp: train_evaluate_def Let_def split: sum.splits prod.splits if_splits)
  from eval_frame [OF ev] obtain m where "s1 = s\<lparr>model := m\<rparr>" by blast
  then show ?thesis using s' accs by simp
qed

lemma train_eval_epoch_step_frame:
  assumes "train_eval_epoch_step T cfg dl e s = Inr s'"
  shows "losses s' = losses s \<and>
         (\<exists>new. stdout s' = stdout s @ new \<and> filter is_loss_log new = [])"
proof (cases "(e + 1) mod train_eval_step cfg = 0")
  case False
  then have "s' = s"
    using assms by (auto simp: train_eval_epoch_step_def py_mod_def split: if_splits)
  then show ?thesis by simp
next
  case True
  then obtain accs s1 where te: "train_evaluate T cfg s dl e = Inr (accs, s1)"
    and s': "s' = s1\<lparr>top_1_acc := top_1_acc s1 @ [(e, fst accs)],
                     top_5_acc := top_5_acc s1 @ [(e, snd accs)]\<rparr>"
    using assms
    by (auto simp: train_eval_epoch_step_def py_mod_def split: if_splits sum.splits prod.splits)
  from train_evaluate_line [OF te] s'
  show ?thesis by (simp add: is_loss_log_def)
qed


subsection \<open>One epoch, and a run of epochs\<close>

lemma train_epoch_steps:
  assumes "train_epoch T cfg dl e (s, bound) = Inr (s', bound')"
  obtains s1 s2 s3 where
    "train_batches T cfg (enumerate 0 dl) (s, bound) = (s1, bound')"
    "log_loss_step T cfg (int (length dl)) e bound' s1 = Inr s2"
    "save_model_step cfg e bound' s2 = Inr s3"
    "train_eval_epoch_step T cfg dl e s3 = Inr s'"
  using assms by (auto simp: train_epoch_def split: prod.splits sum.splits)

lemma train_epoch_logged_loss:
  assumes ok: "train_epoch T cfg dl e (s, bound) = Inr (s', bound')"
    and ne: "dl \<noteq> []"
    and fire: "(e + 1) mod loss_log_step cfg = 0"
  shows "losses s' = losses s @ [(e, final_batch_loss T cfg dl s)]"
proof -
  from train_epoch_steps [OF ok] obtain s1 s2 s3 where
    tb: "train_batches T cfg (enumerate 0 dl) (s, bound) = (s1, bound')" and
    lg: "log_loss_step T cfg (int (length dl)) e bound' s1 = Inr s2" and
    sv: "save_model_step cfg e bound' s2 = Inr s3" and
    ev: "train_eval_epoch_step T cfg dl e s3 = Inr s'"
    by blast
  have b': "bound' = Some (length dl - 1, final_batch_loss T cfg dl s)"
    using train_batches_final [OF ne, of T cfg s bound] tb by simp
  from train_batches_frame [of T cfg "enumerate 0 dl" s bound] tb
  obtain m where s1: "s1 = s\<lparr>model := m\<rparr>" by auto
  from log_loss_step_fire [OF lg fire] b'
  have "losses s2 = losses s1 @ [(e, final_batch_loss T cfg dl s)]" by auto
  then show ?thesis
    using s1 save_model_step_frame [OF sv] train_eval_epoch_step_frame [OF ev] by simp
qed

lemma train_epoch_summary:
  assumes ok: "train_epoch T cfg dl e (s, bound) = Inr (s', bound')"
    and inv: "bound = None \<or> dl \<noteq> []"
  shows "(bound' = None \<or> dl \<noteq> []) \<and>
         (\<exists>new ls. stdout s' = stdout s @ new \<and> losses s' = losses s @ ls \<and>
            map fst ls = filter (\<lambda>e. (e + 1) mod loss_log_step cfg = 0) [e] \<and>
            (ls = [] \<or> dl \<noteq> []) \<and>
            list_all2 (loss_log_line_of T cfg (length dl)) (filter is_loss_log new) ls)"
proof -
  from train_epoch_steps [OF ok] obtain s1 s2 s3 where
    tb: "train_batches T cfg (enumerate 0 dl) (s, bound) = (s1, bound')" and
    lg: "log_loss_step T cfg (int (length dl)) e bound' s1 = Inr s2" and
    sv: "save_model_step cfg e bound' s2 = Inr s3" and
    ev: "train_eval_epoch_step T cfg dl e s3 = Inr s'"
    by blast
  from train_batches_frame [of T cfg "enumerate 0 dl" s bound] tb
  obtain m where s1: "s1 = s\<lparr>model := m\<rparr>" by auto
  have b': "bound' = None \<or> dl \<noteq> []"
    using inv tb by (cases dl) auto
  from train_eval_epoch_step_frame [OF ev] obtain new' where
    l3: "losses s' = losses s3" and o3: "stdout s' = stdout s3 @ new'"
    and f3: "filter is_loss_log new' = []" by blast
  have l2: "losses s3 = losses s2" and o2: "stdout s3 = stdout s2"
    using save_model_step_frame [OF sv] by simp_all
  show ?thesis
  proof (cases "(e + 1) mod loss_log_step cfg = 0")
    case False
    have "s2 = s1" by (rule log_loss_step_skip [OF lg False])
    then have "stdout s' = stdout s @ new'" "losses s' = losses s @ []"
      using s1 l2 l3 o2 o3 by simp_all
    then show ?thesis using b' f3 False by (intro conjI exI) (assumption | simp)+
  next
    case True
    from log_loss_step_fire [OF lg True] obtain i loss a b c where
      bd: "bound' = Some (i, loss)" and
      s2: "s2 = s1\<lparr>stdout := stdout s1 @
                   [loss_log_format a b c (e + 1) (num_epochs cfg) (int i + 1)
                      (int (length dl)) (format_4f_loss T loss)],
                 losses := losses s1 @ [(e, loss)]\<rparr>"
      by blast
    have ne: "dl \<noteq> []" using b' bd by simp
    have "bound' = Some (length dl - 1, final_batch_loss T cfg dl s)"
      using train_batches_final [OF ne, of T cfg s bound] tb by simp
    then have i: "int i + 1 = int (length dl)" using bd ne by (cases dl) auto
    let ?line = "loss_log_format a b c (e + 1) (num_epochs cfg) (int (length dl))
                      (int (length dl)) (format_4f_loss T loss)"
    have out: "stdout s' = stdout s @ (?line # new')"
      using s1 s2 o2 o3 i by simp
    have los: "losses s' = losses s @ [(e, loss)]"
      using s1 s2 l2 l3 by simp
    have fl: "filter is_loss_log (?line # new') = [?line]"
      using f3 by simp
    have rel: "list_all2 (loss_log_line_of T cfg (length dl)) [?line] [(e, loss)]"
      by (auto simp: loss_log_line_of_def)
    show ?thesis
      using b' out los ne True rel unfolding fl [symmetric]
      by (intro conjI exI) (assumption | simp)+
  qed
qed


lemma train_epochs_summary:
  assumes "train_epochs T cfg dl es (s, bound) = Inr (s', bound')"
    and "bound = None \<or> dl \<noteq> []"
  shows "\<exists>new ls. stdout s' = stdout s @ new \<and> losses s' = losses s @ ls \<and>
            map fst ls = filter (\<lambda>e. (e + 1) mod loss_log_step cfg = 0) es \<and>
            (ls = [] \<or> dl \<noteq> []) \<and>
            list_all2 (loss_log_line_of T cfg (length dl)) (filter is_loss_log new) ls"
  using assms
proof (induction es arbitrary: s bound)
  case Nil
  then have "stdout s' = stdout s @ []" "losses s' = losses s @ []" by simp_all
  then show ?case by (intro exI conjI) (assumption | simp)+
next
  case (Cons e es)
  from Cons.prems(1) obtain s1 b1 where
    ep: "train_epoch T cfg dl e (s, bound) = Inr (s1, b1)" and
    rest: "train_epochs T cfg dl es (s1, b1) = Inr (s', bound')"
    by (auto split: sum.splits)
  from train_epoch_summary [OF ep Cons.prems(2)] obtain new1 ls1 where
    b1: "b1 = None \<or> dl \<noteq> []" and
    o1: "stdout s1 = stdout s @ new1" and l1: "losses s1 = losses s @ ls1" and
    m1: "map fst ls1 = filter (\<lambda>e. (e + 1) mod loss_log_step cfg = 0) [e]" and
    n1: "ls1 = [] \<or> dl \<noteq> []" and
    r1: "list_all2 (loss_log_line_of T cfg (length dl)) (filter is_loss_log new1) ls1"
    by blast
  from Cons.IH [OF rest b1] obtain new2 ls2 where
    o2: "stdout s' = stdout s1 @ new2" and l2: "losses s' = losses s1 @ ls2" and
    m2: "map fst ls2 = filter (\<lambda>e. (e + 1) mod loss_log_step cfg = 0) es" and
    n2: "ls2 = [] \<or> dl \<noteq> []" and
    r2: "list_all2 (loss_log_line_of T cfg (length dl)) (filter is_loss_log new2) ls2"
    by blast
  have o: "stdout s' = stdout s @ (new1 @ new2)" using o1 o2 by simp
  have l: "losses s' = losses s @ (ls1 @ ls2)" using l1 l2 by simp
  have m: "map fst (ls1 @ ls2) = filter (\<lambda>e. (e + 1) mod loss_log_step cfg = 0) (e # es)"
    using m1 m2 by simp
  have n: "ls1 @ ls2 = [] \<or> dl \<noteq> []" using n1 n2 by auto
  have r: "list_all2 (loss_log_line_of T cfg (length dl))
             (filter is_loss_log (new1 @ new2)) (ls1 @ ls2)"
    using r1 r2 by (simp add: list_all2_appendI)
  show ?case using o l m n r by blast
qed

lemma py_range_0_10: "py_range 0 10 = [0, 1, 2, 3, 4, 5, 6, 7, 8, 9]"
  by (simp add: py_range_def upt_rec)

text \<open>
  C8.  With \<^verbatim>\<open>num_epochs = 10\<close>, \<^verbatim>\<open>loss_log_step = 2\<close> and a start epoch of \<open>0\<close>, a run of
  \<open>train\<close> that returns has logged exactly the epochs \<open>e = 1, 3, 5, 7, 9\<close>, the 1-indexed
  epochs 2, 4, 6, 8, 10: the loss-log lines it printed are, in order, the lines of the
  pairs in \<^verbatim>\<open>self.losses\<close>, each with \<^verbatim>\<open>Epoch [e+1/10]\<close> and the pair's loss.  In every
  epoch that logs, the pair appended carries the loss of the final batch of that epoch.
\<close>

theorem loss_log_every_second_epoch:
  fixes T :: "('p, 'o, 'x, 's::linorder, 'l) torch"
  assumes n: "num_epochs cfg = 10" and step: "loss_log_step cfg = 2"
    and start: "start_epoch cfg = Inr 0"
    and ok: "train T cfg s data_loader = Inr s'"
  shows "map fst (losses s') = [1, 3, 5, 7, 9] \<and>
         (\<exists>new. stdout s' = stdout s @ new \<and>
            list_all2 (loss_log_line_of T cfg (length data_loader))
              (filter is_loss_log new) (losses s')) \<and>
         (\<forall>e st st'. train_epoch T cfg data_loader e st = Inr st' \<and> (e + 1) mod 2 = 0 \<longrightarrow>
            losses (fst st') = losses (fst st) @ [(e, final_batch_loss T cfg data_loader (fst st))])"
proof -
  let ?s0 = "s\<lparr>losses := [], top_1_acc := [], top_5_acc := []\<rparr>"
  from ok start n obtain bound' where
    run: "train_epochs T cfg data_loader (py_range 0 10) (?s0, None) = Inr (s', bound')"
    by (auto simp: train_def split: sum.splits prod.splits)
  from train_epochs_summary [OF run] obtain new ls where
    o: "stdout s' = stdout ?s0 @ new" and l: "losses s' = losses ?s0 @ ls" and
    m: "map fst ls = filter (\<lambda>e. (e + 1) mod loss_log_step cfg = 0) (py_range 0 10)" and
    ne: "ls = [] \<or> data_loader \<noteq> []" and
    r: "list_all2 (loss_log_line_of T cfg (length data_loader)) (filter is_loss_log new) ls"
    by blast
  have ls: "losses s' = ls" using l by simp
  have m': "map fst ls = [1, 3, 5, 7, 9]"
    using m by (simp add: step py_range_0_10)
  then have "ls \<noteq> []" by auto
  then have dl: "data_loader \<noteq> []" using ne by simp
  have a: "map fst (losses s') = [1, 3, 5, 7, 9]" using ls m' by simp
  have b: "\<exists>new. stdout s' = stdout s @ new \<and>
            list_all2 (loss_log_line_of T cfg (length data_loader))
              (filter is_loss_log new) (losses s')"
    using o r ls by auto
  have c: "\<forall>e st st'. train_epoch T cfg data_loader e st = Inr st' \<and> (e + 1) mod 2 = 0 \<longrightarrow>
            losses (fst st') = losses (fst st) @ [(e, final_batch_loss T cfg data_loader (fst st))]"
  proof (intro allI impI)
    fix e :: int and st st' :: "('p, 'o, 'l) solver \<times> (nat \<times> 'l) option"
    assume h: "train_epoch T cfg data_loader e st = Inr st' \<and> (e + 1) mod 2 = 0"
    obtain s1 b1 where st: "st = (s1, b1)" by (cases st) auto
    obtain s2 b2 where st': "st' = (s2, b2)" by (cases st') auto
    from h have ep: "train_epoch T cfg data_loader e (s1, b1) = Inr (s2, b2)"
      and fire: "(e + 1) mod loss_log_step cfg = 0"
      by (simp_all add: st st' step)
    show "losses (fst st') = losses (fst st) @ [(e, final_batch_loss T cfg data_loader (fst st))]"
      using train_epoch_logged_loss [OF ep dl fire] by (simp add: st st')
  qed
  show ?thesis using a b c by blast
qed

lemma py_range_empty: "b \<le> a \<Longrightarrow> py_range a b = []"
  by (simp add: py_range_def)

lemma py_range_upto_aux: "map (\<lambda>k. a + int k) [0..<n] = [a..a + int n - 1]"
proof (induction n)
  case 0
  then show ?case by simp
next
  case (Suc n)
  have "[a..a + int (Suc n) - 1] = [a..a + int n - 1] @ [a + int n]"
    using upto_rec2 [of a "a + int n"] by simp
  then show ?case using Suc by simp
qed

lemma py_range_upto: "py_range a b = [a..b - 1]"
proof (cases "a \<le> b")
  case True
  then have "a + int (nat (b - a)) - 1 = b - 1" by simp
  then show ?thesis using py_range_upto_aux [of a "nat (b - a)"] by (simp add: py_range_def)
next
  case False
  then show ?thesis by (simp add: py_range_def)
qed

lemma py_split_head: "\<exists>ws. py_split c s = takeWhile (\<lambda>x. x \<noteq> c) s # ws"
  by (induction s) (auto split: list.splits)

lemma start_epoch_leading_field:
  assumes "pretrained_model cfg = Some ident" "ident \<noteq> []"
  shows "start_epoch cfg = py_int (takeWhile (\<lambda>x. x \<noteq> CHR ''_'') ident)"
proof -
  obtain ws where "py_split CHR ''_'' ident = takeWhile (\<lambda>x. x \<noteq> CHR ''_'') ident # ws"
    using py_split_head by blast
  then show ?thesis using assms by (simp add: start_epoch_def)
qed

lemma log_loss_step_acc:
  assumes "log_loss_step T cfg n e bound s = Inr s'"
  shows "top_1_acc s' = top_1_acc s \<and> top_5_acc s' = top_5_acc s"
proof (cases "(e + 1) mod loss_log_step cfg = 0")
  case True
  from log_loss_step_fire [OF assms True] show ?thesis by auto
next
  case False
  from log_loss_step_skip [OF assms False] show ?thesis by simp
qed

lemma save_model_step_acc:
  assumes "save_model_step cfg e bound s = Inr s'"
  shows "top_1_acc s' = top_1_acc s \<and> top_5_acc s' = top_5_acc s"
  using assms
  by (auto simp: save_model_step_def save_model_def py_mod_def
      split: if_splits option.splits)

lemma train_evaluate_acc:
  assumes "train_evaluate T cfg s dl e = Inr (accs, s')"
  shows "top_1_acc s' = top_1_acc s \<and> top_5_acc s' = top_5_acc s"
proof -
  from assms obtain counts s1 where ev: "eval T cfg s dl = Inr (counts, s1)"
    and "\<exists>line. s' = s1\<lparr>stdout := stdout s1 @ [line]\<rparr>"
    by (auto simp: train_evaluate_def Let_def split: sum.splits prod.splits if_splits)
  moreover from eval_frame [OF ev] obtain m where "s1 = s\<lparr>model := m\<rparr>" by blast
  ultimately show ?thesis by auto
qed

lemma train_eval_epoch_step_acc:
  assumes "train_eval_epoch_step T cfg dl e s = Inr s'"
  shows "map fst (top_1_acc s') =
           map fst (top_1_acc s) @ filter (\<lambda>e. (e + 1) mod train_eval_step cfg = 0) [e] \<and>
         map fst (top_5_acc s') =
           map fst (top_5_acc s) @ filter (\<lambda>e. (e + 1) mod train_eval_step cfg = 0) [e]"
proof (cases "(e + 1) mod train_eval_step cfg = 0")
  case False
  then have "s' = s"
    using assms by (auto simp: train_eval_epoch_step_def py_mod_def split: if_splits)
  then show ?thesis using False by simp
next
  case True
  then obtain accs s1 where te: "train_evaluate T cfg s dl e = Inr (accs, s1)"
    and s': "s' = s1\<lparr>top_1_acc := top_1_acc s1 @ [(e, fst accs)],
                     top_5_acc := top_5_acc s1 @ [(e, snd accs)]\<rparr>"
    using assms
    by (auto simp: train_eval_epoch_step_def py_mod_def split: if_splits sum.splits prod.splits)
  from train_evaluate_acc [OF te] s' True show ?thesis by simp
qed

lemma train_epoch_acc:
  assumes ok: "train_epoch T cfg dl e (s, bound) = Inr (s', bound')"
  shows "map fst (top_1_acc s') =
           map fst (top_1_acc s) @ filter (\<lambda>e. (e + 1) mod train_eval_step cfg = 0) [e] \<and>
         map fst (top_5_acc s') =
           map fst (top_5_acc s) @ filter (\<lambda>e. (e + 1) mod train_eval_step cfg = 0) [e]"
proof -
  from train_epoch_steps [OF ok] obtain s1 s2 s3 where
    tb: "train_batches T cfg (enumerate 0 dl) (s, bound) = (s1, bound')" and
    lg: "log_loss_step T cfg (int (length dl)) e bound' s1 = Inr s2" and
    sv: "save_model_step cfg e bound' s2 = Inr s3" and
    ev: "train_eval_epoch_step T cfg dl e s3 = Inr s'"
    by blast
  from train_batches_frame [of T cfg "enumerate 0 dl" s bound] tb
  obtain m where s1: "s1 = s\<lparr>model := m\<rparr>" by auto
  show ?thesis
    using s1 log_loss_step_acc [OF lg] save_model_step_acc [OF sv]
      train_eval_epoch_step_acc [OF ev]
    by simp
qed

lemma train_epochs_acc:
  assumes "train_epochs T cfg dl es (s, bound) = Inr (s', bound')"
  shows "map fst (top_1_acc s') =
           map fst (top_1_acc s) @ filter (\<lambda>e. (e + 1) mod train_eval_step cfg = 0) es \<and>
         map fst (top_5_acc s') =
           map fst (top_5_acc s) @ filter (\<lambda>e. (e + 1) mod train_eval_step cfg = 0) es"
  using assms
proof (induction es arbitrary: s bound)
  case Nil
  then show ?case by simp
next
  case (Cons e es)
  from Cons.prems obtain s1 b1 where
    ep: "train_epoch T cfg dl e (s, bound) = Inr (s1, b1)" and
    rest: "train_epochs T cfg dl es (s1, b1) = Inr (s', bound')"
    by (auto split: sum.splits)
  show ?case using train_epoch_acc [OF ep] Cons.IH [OF rest] by simp
qed

text \<open>
  C3.  When the pretrained-model identifier is set and its leading \<^verbatim>\<open>_\<close>-delimited field
  reads as the integer \<open>k\<close>, \<open>train\<close> starts from epoch \<open>k\<close> and runs the epochs
  \<open>k, \<dots>, num_epochs - 1\<close> and no other: a run that returns has logged the loss in exactly
  those of them that the logging step selects, and evaluated in exactly those that the
  evaluation step selects.  For the identifier \<^verbatim>\<open>5_120_40\<close> of the checkpoint file
  \<^verbatim>\<open>5_120_40.pth\<close> the start epoch is 5.
\<close>

theorem train_resumes_from_leading_field:
  fixes T :: "('p, 'o, 'x, 's::linorder, 'l) torch"
  assumes "pretrained_model cfg = Some ident" and "ident \<noteq> []"
    and "py_int (takeWhile (\<lambda>x. x \<noteq> CHR ''_'') ident) = Inr k"
  shows "start_epoch cfg = Inr k \<and>
         train T cfg s data_loader =
           (case train_epochs T cfg data_loader [k..num_epochs cfg - 1]
                   (s\<lparr>losses := [], top_1_acc := [], top_5_acc := []\<rparr>, None) of
              Inl err \<Rightarrow> Inl err
            | Inr (s', bound) \<Rightarrow> Inr s') \<and>
         (\<forall>s'. train T cfg s data_loader = Inr s' \<longrightarrow>
            map fst (losses s') =
              filter (\<lambda>e. (e + 1) mod loss_log_step cfg = 0) [k..num_epochs cfg - 1] \<and>
            map fst (top_1_acc s') =
              filter (\<lambda>e. (e + 1) mod train_eval_step cfg = 0) [k..num_epochs cfg - 1] \<and>
            map fst (top_5_acc s') =
              filter (\<lambda>e. (e + 1) mod train_eval_step cfg = 0) [k..num_epochs cfg - 1])"
proof -
  let ?s0 = "s\<lparr>losses := [], top_1_acc := [], top_5_acc := []\<rparr>"
  have st: "start_epoch cfg = Inr k"
    using start_epoch_leading_field [OF assms(1,2)] assms(3) by simp
  have tr: "train T cfg s data_loader =
           (case train_epochs T cfg data_loader [k..num_epochs cfg - 1] (?s0, None) of
              Inl err \<Rightarrow> Inl err
            | Inr (s', bound) \<Rightarrow> Inr s')"
    using st by (simp add: train_def py_range_upto)
  have eff: "map fst (losses s') =
              filter (\<lambda>e. (e + 1) mod loss_log_step cfg = 0) [k..num_epochs cfg - 1] \<and>
            map fst (top_1_acc s') =
              filter (\<lambda>e. (e + 1) mod train_eval_step cfg = 0) [k..num_epochs cfg - 1] \<and>
            map fst (top_5_acc s') =
              filter (\<lambda>e. (e + 1) mod train_eval_step cfg = 0) [k..num_epochs cfg - 1]"
    if ok: "train T cfg s data_loader = Inr s'" for s'
  proof -
    from ok tr obtain bound' where
      run: "train_epochs T cfg data_loader [k..num_epochs cfg - 1] (?s0, None) = Inr (s', bound')"
      by (auto split: sum.splits prod.splits)
    from train_epochs_summary [OF run] obtain ls where
      "losses s' = losses ?s0 @ ls"
      "map fst ls = filter (\<lambda>e. (e + 1) mod loss_log_step cfg = 0) [k..num_epochs cfg - 1]"
      by blast
    then have "map fst (losses s') =
        filter (\<lambda>e. (e + 1) mod loss_log_step cfg = 0) [k..num_epochs cfg - 1]" by simp
    then show ?thesis using train_epochs_acc [OF run] by simp
  qed
  show ?thesis using st tr eff by blast
qed

lemma py_int_5: "py_int ''5'' = Inr 5"
  by (simp add: py_int_def py_strip_def py_isspace_def is_digit_def digits_value_def digit_value_def)

theorem train_resumes_from_leading_field_witness:
  "start_epoch (toy_config\<lparr>pretrained_model := Some ''5_120_40''\<rparr>) = Inr 5 \<and>
   start_epoch (toy_config\<lparr>pretrained_model := Some ''5_120_40.pth''\<rparr>) = Inr 5 \<and>
   map_sum id (\<lambda>s'. (map fst (losses s'), map fst (top_1_acc s'), aux (model s')))
     (train (toy_torch 6) (toy_config\<lparr>pretrained_model := Some ''5_120_40''\<rparr>)
        toy_solver toy_loader) = Inr ([5, 7, 9], [9], 10)"
proof -
  let ?cfg = "toy_config\<lparr>pretrained_model := Some ''5_120_40''\<rparr>"
  have u: "[5..(9::int)] = [5, 6, 7, 8, 9]" by (simp add: upto_rec1)
  have c: "num_epochs ?cfg = 10" "loss_log_step ?cfg = 2" "train_eval_step ?cfg = 10"
    "pretrained_model ?cfg = Some ''5_120_40''"
    by (simp_all add: toy_config_def)
  have a: "start_epoch (toy_config\<lparr>pretrained_model := Some ''5_120_40.pth''\<rparr>) = Inr 5"
    using train_resumes_from_leading_field
      [of "toy_config\<lparr>pretrained_model := Some ''5_120_40.pth''\<rparr>" "''5_120_40.pth''" 5
          "toy_torch 6" toy_solver toy_loader]
    by (simp add: py_int_5)
  have "\<not> isl (train (toy_torch 6) ?cfg toy_solver toy_loader)"
    by code_simp
  then obtain s' where ok: "train (toy_torch 6) ?cfg toy_solver toy_loader = Inr s'"
    by (cases "train (toy_torch 6) ?cfg toy_solver toy_loader") auto
  have steps: "map_sum id (\<lambda>s'. aux (model s')) (train (toy_torch 6) ?cfg toy_solver toy_loader)
      = Inr 10"
    by code_simp
  from train_resumes_from_leading_field
      [of ?cfg "''5_120_40''" 5 "toy_torch 6" toy_solver toy_loader] ok
  have "start_epoch ?cfg = Inr 5 \<and>
        map fst (losses s') = [5, 7, 9] \<and> map fst (top_1_acc s') = [9]"
    by (simp add: py_int_5 c u)
  then show ?thesis using a ok steps by simp
qed

text \<open>
  C5.  When the start epoch equals \<^verbatim>\<open>num_epochs\<close>, \<open>train\<close> returns the solver it was
  given with the three metric lists emptied: no optimization step has run, nothing was
  printed or saved, and the network with its parameters is unchanged.
\<close>

theorem train_zero_epochs:
  assumes "start_epoch cfg = Inr (num_epochs cfg)"
  shows "train T cfg s data_loader = Inr (s\<lparr>losses := [], top_1_acc := [], top_5_acc := []\<rparr>)
         \<and> model (s\<lparr>losses := [], top_1_acc := [], top_5_acc := []\<rparr>) = model s"
  using assms by (simp add: train_def py_range_empty)

lemma start_epoch_10: "start_epoch (toy_config\<lparr>pretrained_model := Some ''10_3''\<rparr>) = Inr 10"
  by code_simp

theorem train_zero_epochs_witness:
  "start_epoch (toy_config\<lparr>pretrained_model := Some ''10_3''\<rparr>) =
     Inr (num_epochs (toy_config\<lparr>pretrained_model := Some ''10_3''\<rparr>)) \<and>
   map_sum id model
     (train (toy_torch 6) (toy_config\<lparr>pretrained_model := Some ''10_3''\<rparr>) toy_solver toy_loader)
     = Inr (model toy_solver)"
proof -
  have st: "start_epoch (toy_config\<lparr>pretrained_model := Some ''10_3''\<rparr>) =
     Inr (num_epochs (toy_config\<lparr>pretrained_model := Some ''10_3''\<rparr>))"
    using start_epoch_10 by (simp add: toy_config_def)
  from train_zero_epochs [OF st, of "toy_torch 6" toy_solver toy_loader] st
  show ?thesis by simp
qed

theorem loss_log_every_second_epoch_witness:
  "num_epochs toy_config = 10 \<and> loss_log_step toy_config = 2 \<and>
   start_epoch toy_config = Inr 0 \<and>
   map_sum id (\<lambda>s'. map fst (losses s'))
     (train (toy_torch 6) toy_config toy_solver toy_loader) = Inr [1, 3, 5, 7, 9]"
proof -
  have n: "num_epochs toy_config = 10" and st: "loss_log_step toy_config = 2"
    and s0: "start_epoch toy_config = Inr 0"
    by (simp_all add: toy_config_def start_epoch_def)
  have "\<not> isl (train (toy_torch 6) toy_config toy_solver toy_loader)"
    by code_simp
  then obtain s' where ok: "train (toy_torch 6) toy_config toy_solver toy_loader = Inr s'"
    by (cases "train (toy_torch 6) toy_config toy_solver toy_loader") auto
  from loss_log_every_second_epoch [OF n st s0 ok]
  have "map fst (losses s') = [1, 3, 5, 7, 9]" by blast
  then show ?thesis using n st s0 ok by simp
qed

subsection \<open>The optimization step\<close>

text \<open>
  C1.  The step the training loop runs for the batch \<open>([2, 3], [2, 5])\<close> computes its loss
  against the images \<open>[2, 3]\<close>, not against the labels \<open>[2, 5]\<close>: the toy loss shows its
  target after the first score.  \<open>model_step\<close> itself uses the target it is given.
\<close>

theorem model_step_target_is_images:
  "snd (train_batches (toy_torch 6) toy_config (enumerate 0 [([2, 3], [2, 5])]) (toy_solver, None))
     = Some (0, [0, 2, 3]) \<and>
   fst (model_step (toy_torch 6) toy_solver [2, 3] [2, 3]) = [0, 2, 3] \<and>
   fst (model_step (toy_torch 6) toy_solver [2, 3] [2, 5]) = [0, 2, 5]"
  by code_simp

lemma train_batches_ignores_labels:
  "train_batches T cfg ((i, images, labels) # rest) st =
   train_batches T cfg ((i, images, labels') # rest) st"
  by (cases st) simp

subsection \<open>Checkpoints\<close>

lemma os_path_join_absolute: "take 1 b = ''/'' \<Longrightarrow> os_path_join a b = b"
  by (simp add: os_path_join_def)

lemma os_path_join_relative:
  "take 1 b \<noteq> ''/'' \<Longrightarrow> os_path_join a b = dir_prefix a @ b"
  by (simp add: os_path_join_def dir_prefix_def)

text \<open>
  C7 as stated fails for a version that starts with a separator: \<^verbatim>\<open>os.path.join\<close> drops
  the model-save directory.
\<close>

theorem checkpoint_path_absolute_version_counterexample:
  "checkpoint_path (toy_config\<lparr>version := ''/vgg''\<rparr>) 0 0 = ''/vgg_1_1.pth'' \<and>
   take 6 (checkpoint_path (toy_config\<lparr>version := ''/vgg''\<rparr>) 0 0) \<noteq> ''models'' \<and>
   model_save_path (toy_config\<lparr>version := ''/vgg''\<rparr>) = ''models''"
  by code_simp

text \<open>
  C7, as amended.  For every version string that does not start with \<^verbatim>\<open>/\<close>, and every \<open>e\<close> and
  \<open>i\<close>, the checkpoint is saved under the model-save directory (with one separator,
  unless the directory is empty or ends in one) followed by exactly
  \<^verbatim>\<open>{version}_{e+1}_{i+1}.pth\<close>, and \<open>save_model\<close> writes the parameters there and
  nowhere else.
\<close>

theorem checkpoint_path_relative_version:
  assumes "take 1 (version cfg) \<noteq> ''/''"
  shows "checkpoint_path cfg e i =
           dir_prefix (model_save_path cfg) @
           version cfg @ ''_'' @ str_int (e + 1) @ ''_'' @ str_int (i + 1) @ ''.pth'' \<and>
         files (save_model cfg s e i) =
           (files s)(checkpoint_path cfg e i \<mapsto> state_dict (model s))"
proof -
  have "take 1 (version cfg @ ''_'' @ str_int (e + 1) @ ''_'' @ str_int (i + 1) @ ''.pth'')
        \<noteq> ''/''"
    using assms by (cases "version cfg") auto
  then show ?thesis
    by (simp add: checkpoint_path_def save_model_def os_path_join_relative)
qed

theorem checkpoint_path_relative_version_witness:
  "take 1 (version toy_config) \<noteq> ''/'' \<and>
   checkpoint_path toy_config 4 119 = ''models/vgg_5_120.pth''"
proof -
  have v: "take 1 (version toy_config) \<noteq> ''/''" by (simp add: toy_config_def)
  have "checkpoint_path toy_config 4 119 =
          dir_prefix (model_save_path toy_config) @ version toy_config @ ''_'' @
          str_int (4 + 1) @ ''_'' @ str_int (119 + 1) @ ''.pth''"
    by (rule conjunct1 [OF checkpoint_path_relative_version [OF v]])
  also have "\<dots> = ''models/vgg_5_120.pth''"
    by code_simp
  finally show ?thesis using v by blast
qed

text \<open>
  C4.  After \<open>save_model cfg s e i\<close>, loading with the identifier that names the saved
  file succeeds and puts the saved parameters into the network, whatever parameters the
  network holds when it loads; on the network as it was saved, the network is unchanged.
\<close>

theorem save_then_load_restores:
  "\<exists>s'. load_pretrained_model (resumed_config cfg e i) ((save_model cfg s e i)\<lparr>model := m\<rparr>)
          = Inr s' \<and>
        state_dict (model s') = state_dict (model s) \<and>
        model s' = m\<lparr>state_dict := state_dict (model s)\<rparr> \<and>
        (m = model s \<longrightarrow> model s' = model s)"
  by (simp add: load_pretrained_model_def save_model_def checkpoint_path_def
      resumed_config_def format_opt_def)

theorem save_then_load_restores_witness:
  "map_sum id (\<lambda>s'. state_dict (model s'))
     (load_pretrained_model (resumed_config toy_config 4 119)
        ((save_model toy_config toy_solver 4 119)
           \<lparr>model := \<lparr>state_dict = 7, training = True, aux = 3\<rparr>\<rparr>)) = Inr 0 \<and>
   state_dict (model toy_solver) = 0"
proof -
  from save_then_load_restores
    [where cfg = toy_config and e = 4 and i = 119 and s = toy_solver
       and m = "\<lparr>state_dict = 7, training = True, aux = 3\<rparr>"]
  obtain s' where
    "load_pretrained_model (resumed_config toy_config 4 119)
        ((save_model toy_config toy_solver 4 119)
           \<lparr>model := \<lparr>state_dict = 7, training = True, aux = 3\<rparr>\<rparr>) = Inr s'"
    "state_dict (model s') = state_dict (model toy_solver)"
    by blast
  then show ?thesis by (simp add: toy_solver_def)
qed

subsection \<open>Printed lines\<close>

lemma test_line:
  assumes "test T cfg s dl = Inr s'"
  shows "\<exists>a1 a5. stdout s' = stdout s @ [spec_eval_format (format_4f T a1) (format_4f T a5)]"
proof -
  from assms obtain t1 t5 n s1 where ev: "eval T cfg s dl = Inr ((t1, t5, n), s1)"
    and s': "s' = s1\<lparr>stdout := stdout s1 @
           [''top_1_acc: '' @ format_4f T (real t1 / real n) @
            ''--top_5_acc: '' @ format_4f T (real t5 / real n)]\<rparr>"
    by (auto simp: test_def Let_def split: sum.splits prod.splits if_splits)
  from eval_frame [OF ev] obtain m where "s1 = s\<lparr>model := m\<rparr>" by blast
  then have "stdout s' = stdout s @
      [spec_eval_format (format_4f T (real t1 / real n)) (format_4f T (real t5 / real n))]"
    using s' by (simp add: spec_eval_format_def)
  then show ?thesis by blast
qed

text \<open>
  C9 as stated fails on both lines: the loss log has no space between the comma and
  \<^verbatim>\<open>loss:\<close>, and the evaluation line of the training loop starts with the epoch.
\<close>

theorem loss_log_line_counterexample:
  "map_sum id stdout (print_loss_log (toy_torch 6) toy_config toy_solver 0 2 1 1 [0]) =
     Inr [''Elapsed 0:00:01/0:00:01 -- 0:00:01, Epoch [2/10] Iter [2/2],loss: 0.2500''] \<and>
   ''Elapsed 0:00:01/0:00:01 -- 0:00:01, Epoch [2/10] Iter [2/2],loss: 0.2500'' \<noteq>
     spec_loss_log_format ''0:00:01'' ''0:00:01'' ''0:00:01'' 2 10 2 2 ''0.2500'' \<and>
   map_sum id (\<lambda>r. stdout (snd r))
     (train_evaluate (toy_torch 6) toy_config toy_solver toy_loader 9) =
     Inr [''Epoch [10/10]--top_1_acc: 0.5000--top_5_acc: 0.5000''] \<and>
   ''Epoch [10/10]--top_1_acc: 0.5000--top_5_acc: 0.5000'' \<noteq>
     spec_eval_format ''0.5000'' ''0.5000''"
  by code_simp

text \<open>
  C9, as amended.  Every loss-log line is \<^verbatim>\<open>Elapsed {}/{} -- {}, Epoch [{e+1}/{num_epochs}] Iter
  [{i+1}/{iters_per_epoch}],loss: {loss:.4f}\<close>, with no space before \<^verbatim>\<open>loss:\<close>; the
  evaluation line of the training loop is \<^verbatim>\<open>Epoch [{e+1}/{num_epochs}]--\<close> followed by
  \<^verbatim>\<open>top_1_acc: {:.4f}--top_5_acc: {:.4f}\<close>; the line of \<open>test\<close> is the latter alone.
\<close>

theorem printed_line_formats:
  "(print_loss_log T cfg s t0 n e i loss = Inr s1 \<longrightarrow>
      (\<exists>a b c. stdout s1 = stdout s @
         [''Elapsed '' @ a @ ''/'' @ b @ '' -- '' @ c @
          '', Epoch ['' @ str_int (e + 1) @ ''/'' @ str_int (num_epochs cfg) @
          ''] Iter ['' @ str_int (i + 1) @ ''/'' @ str_int n @
          ''],loss: '' @ format_4f_loss T loss])) \<and>
   (train_evaluate T cfg s data_loader e = Inr (accs, s2) \<longrightarrow>
      stdout s2 = stdout s @
        [''Epoch ['' @ str_int (e + 1) @ ''/'' @ str_int (num_epochs cfg) @ '']--'' @
         spec_eval_format (format_4f T (fst accs)) (format_4f T (snd accs))]) \<and>
   (test T cfg s data_loader = Inr s3 \<longrightarrow>
      (\<exists>a1 a5. stdout s3 = stdout s @
         [spec_eval_format (format_4f T a1) (format_4f T a5)]))"
proof (intro conjI impI)
  assume "print_loss_log T cfg s t0 n e i loss = Inr s1"
  from print_loss_log_line [OF this] obtain a b c where
    "s1 = s\<lparr>stdout := stdout s @
       [loss_log_format a b c (e + 1) (num_epochs cfg) (i + 1) n (format_4f_loss T loss)]\<rparr>"
    by blast
  then have "stdout s1 = stdout s @
         [''Elapsed '' @ a @ ''/'' @ b @ '' -- '' @ c @
          '', Epoch ['' @ str_int (e + 1) @ ''/'' @ str_int (num_epochs cfg) @
          ''] Iter ['' @ str_int (i + 1) @ ''/'' @ str_int n @
          ''],loss: '' @ format_4f_loss T loss]"
    by (simp add: loss_log_format_def)
  then show "\<exists>a b c. stdout s1 = stdout s @
         [''Elapsed '' @ a @ ''/'' @ b @ '' -- '' @ c @
          '', Epoch ['' @ str_int (e + 1) @ ''/'' @ str_int (num_epochs cfg) @
          ''] Iter ['' @ str_int (i + 1) @ ''/'' @ str_int n @
          ''],loss: '' @ format_4f_loss T loss]"
    by blast
next
  assume "train_evaluate T cfg s data_loader e = Inr (accs, s2)"
  from train_evaluate_line [OF this]
  show "stdout s2 = stdout s @
        [''Epoch ['' @ str_int (e + 1) @ ''/'' @ str_int (num_epochs cfg) @ '']--'' @
         spec_eval_format (format_4f T (fst accs)) (format_4f T (snd accs))]"
    by (simp add: spec_eval_format_def)
next
  assume "test T cfg s data_loader = Inr s3"
  then show "\<exists>a1 a5. stdout s3 = stdout s @
         [spec_eval_format (format_4f T a1) (format_4f T a5)]"
    by (rule test_line)
qed

theorem printed_line_formats_witness:
  "(\<exists>a b c. map_sum id stdout (print_loss_log (toy_torch 6) toy_config toy_solver 0 2 1 1 [0]) =
      Inr [''Elapsed '' @ a @ ''/'' @ b @ '' -- '' @ c @
           '', Epoch [2/10] Iter [2/2],loss: 0.2500'']) \<and>
   map_sum id (\<lambda>r. stdout (snd r))
     (train_evaluate (toy_torch 6) toy_config toy_solver toy_loader 9) =
     Inr [''Epoch [10/10]--top_1_acc: 0.5000--top_5_acc: 0.5000'']"
proof -
  have "\<not> isl (print_loss_log (toy_torch 6) toy_config toy_solver 0 2 1 1 [0])"
    by code_simp
  then obtain s1 where p: "print_loss_log (toy_torch 6) toy_config toy_solver 0 2 1 1 [0] = Inr s1"
    by (cases "print_loss_log (toy_torch 6) toy_config toy_solver 0 2 1 1 [0]") auto
  have "\<not> isl (train_evaluate (toy_torch 6) toy_config toy_solver toy_loader 9)"
    by code_simp
  then obtain accs s2 where
    t: "train_evaluate (toy_torch 6) toy_config toy_solver toy_loader 9 = Inr (accs, s2)"
    by (cases "train_evaluate (toy_torch 6) toy_config toy_solver toy_loader 9") auto
  have f: "str_int (1 + 1) = ''2''" "str_int (9 + 1) = ''10''"
    "num_epochs toy_config = 10" "stdout toy_solver = []"
    "format_4f_loss (toy_torch 6) [0] = ''0.2500''"
    "format_4f (toy_torch 6) (fst accs) = ''0.5000''"
    "format_4f (toy_torch 6) (snd accs) = ''0.5000''"
    "str_int 2 = ''2''" "str_int 10 = ''10''"
    by (simp_all add: toy_config_def toy_solver_def toy_torch_def str_int_def digit_char_def)
  from printed_line_formats
    [where T = "toy_torch 6" and cfg = toy_config and s = toy_solver and ?t0.0 = 0 and n = 2
       and e = 1 and i = 1 and loss = "[0]" and ?s1.0 = s1]
  have a: "\<exists>a b c. stdout s1 = stdout toy_solver @
         [''Elapsed '' @ a @ ''/'' @ b @ '' -- '' @ c @
          '', Epoch ['' @ str_int (1 + 1) @ ''/'' @ str_int (num_epochs toy_config) @
          ''] Iter ['' @ str_int (1 + 1) @ ''/'' @ str_int 2 @
          ''],loss: '' @ format_4f_loss (toy_torch 6) [0]]"
    using p by blast
  from printed_line_formats
    [where T = "toy_torch 6" and cfg = toy_config and s = toy_solver and e = 9
       and data_loader = toy_loader and accs = accs and ?s2.0 = s2]
  have b: "stdout s2 = stdout toy_solver @
        [''Epoch ['' @ str_int (9 + 1) @ ''/'' @ str_int (num_epochs toy_config) @ '']--'' @
         spec_eval_format (format_4f (toy_torch 6) (fst accs)) (format_4f (toy_torch 6) (snd accs))]"
    using t by blast
  show ?thesis
    using a b p t unfolding f by (simp add: spec_eval_format_def)
qed

section \<open>Decimal strings read back\<close>

text \<open>
  What \<open>str_int\<close> writes, \<open>py_int\<close> reads back: the two conversions agree on the decimal
  notation.
\<close>

lemma digit_char_is_digit: "d < 10 \<Longrightarrow> is_digit (digit_char d)"
proof -
  assume "d < 10"
  then have "d \<in> {0, 1, 2, 3, 4, 5, 6, 7, 8, 9}" by auto
  then show ?thesis by (auto simp: is_digit_def digit_char_def)
qed

lemma digit_value_digit_char: "d < 10 \<Longrightarrow> digit_value (digit_char d) = d"
proof -
  assume "d < 10"
  then have "d \<in> {0, 1, 2, 3, 4, 5, 6, 7, 8, 9}" by auto
  then show ?thesis by (auto simp: digit_value_def digit_char_def)
qed

lemma digit_not_space: "is_digit c \<Longrightarrow> \<not> py_isspace c"
  by (auto simp: is_digit_def py_isspace_def)

lemma digit_not_sign: "is_digit c \<Longrightarrow> c \<noteq> CHR ''-'' \<and> c \<noteq> CHR ''+''"
  by (auto simp: is_digit_def)

declare str_nat.simps [simp del]

lemma str_nat_digits: "str_nat n \<noteq> [] \<and> list_all is_digit (str_nat n)"
proof (induction n rule: str_nat.induct)
  case (1 n)
  show ?case
  proof (cases "n < 10")
    case True
    then show ?thesis using digit_char_is_digit [of n] by (simp add: str_nat.simps [of n])
  next
    case False
    then show ?thesis
      using 1 digit_char_is_digit [of "n mod 10"] by (simp add: str_nat.simps [of n])
  qed
qed

lemma digits_value_snoc:
  "digits_value (ds @ [c]) = 10 * digits_value ds + digit_value c"
  by (simp add: digits_value_def)

lemma digits_value_str_nat: "digits_value (str_nat n) = n"
proof (induction n rule: str_nat.induct)
  case (1 n)
  show ?case
  proof (cases "n < 10")
    case True
    then show ?thesis
      using digit_value_digit_char [of n]
      by (simp add: str_nat.simps [of n] digits_value_def)
  next
    case False
    then show ?thesis
      using 1 digit_value_digit_char [of "n mod 10"]
      by (simp add: str_nat.simps [of n] digits_value_snoc)
  qed
qed

lemma py_strip_digits:
  assumes "ds \<noteq> []" "list_all is_digit ds"
  shows "py_strip ds = ds" "py_strip (CHR ''-'' # ds) = CHR ''-'' # ds"
proof -
  have "is_digit (hd ds)" "is_digit (last ds)"
    using assms by (simp_all add: list_all_iff)
  then have h: "\<not> py_isspace (hd ds)" "\<not> py_isspace (last ds)"
    by (simp_all add: digit_not_space)
  have m: "\<not> py_isspace CHR ''-''" by (simp add: py_isspace_def)
  have d1: "dropWhile py_isspace ds = ds" using h(1) assms(1) by (cases ds) auto
  have d2: "dropWhile py_isspace (rev ds) = rev ds"
    using h(2) assms(1) by (cases "rev ds") (auto simp: last_rev hd_rev)
  show "py_strip ds = ds" by (simp add: py_strip_def d1 d2)
  have d3: "dropWhile py_isspace (rev ds @ [CHR ''-'']) = rev ds @ [CHR ''-'']"
    using h(2) assms(1) by (cases "rev ds") (auto simp: hd_rev [symmetric])
  show "py_strip (CHR ''-'' # ds) = CHR ''-'' # ds"
    by (simp add: py_strip_def m d3)
qed

lemma py_int_str_int: "py_int (str_int k) = Inr k"
proof -
  have ne: "str_nat n \<noteq> []" and dg: "list_all is_digit (str_nat n)" for n
    using str_nat_digits [of n] by simp_all
  show ?thesis
  proof (cases "k < 0")
    case True
    have "py_strip (CHR ''-'' # str_nat (nat (- k))) = CHR ''-'' # str_nat (nat (- k))"
      by (rule py_strip_digits(2) [OF ne dg])
    then show ?thesis
      using True ne [of "nat (- k)"] dg [of "nat (- k)"]
      by (simp add: py_int_def str_int_def digits_value_str_nat)
  next
    case False
    obtain c r where cr: "str_nat (nat k) = c # r"
      using ne [of "nat k"] by (cases "str_nat (nat k)") auto
    have "is_digit c" using dg [of "nat k"] cr by simp
    then have sg: "c \<noteq> CHR ''-''" "c \<noteq> CHR ''+''" using digit_not_sign by auto
    have "py_strip (str_nat (nat k)) = str_nat (nat k)"
      by (rule py_strip_digits(1) [OF ne dg])
    then show ?thesis
      using False ne [of "nat k"] dg [of "nat k"] digits_value_str_nat [of "nat k"] sg cr
      by (simp add: py_int_def str_int_def)
  qed
qed

end
